theory Spec2Isabelle
  imports Main "HOL-Library.AList"
begin

section \<open>JavaScript values\<close>

text \<open>
  Request bodies (\<open>req.body\<close>) and response bodies
      (\<open>res.json(...)\<close>) are JavaScript
  values. An object is its list of own properties; reading a property that is absent
  gives \<open>undefined\<close>. A \<open>Date\<close> is its time in milliseconds.
\<close>

datatype jsval =
    JUndefined
  | JNull
  | JBool bool
  | JNum int
  | JStr string
  | JDate int
  | JArr "jsval list"
  | JObj "(string \<times> jsval) list"

definition getProp :: "(string \<times> jsval) list \<Rightarrow> string \<Rightarrow> jsval" where
  "getProp kvs k = (case map_of kvs k of None \<Rightarrow> JUndefined | Some v \<Rightarrow> v)"

definition keys :: "(string \<times> 'a) list \<Rightarrow> string list" where
  "keys kvs = map fst kvs"

fun isUndefined :: "jsval \<Rightarrow> bool" where
  "isUndefined JUndefined = True"
| "isUndefined _ = False"

fun isNull :: "jsval \<Rightarrow> bool" where
  "isNull JNull = True"
| "isNull _ = False"

section \<open>shared/schema.ts: the tables\<close>

text \<open>
  A column of \<open>pgTable\<close>: its type, whether it is \<open>notNull()\<close>
      (a primary key is),
  and whether it has a default (\<open>default(...)\<close>, \<open>defaultNow()\<close>).
\<close>

datatype coltype = PgUuid | PgText | PgVarchar "nat option" | PgTimestamp

record column =
  ctype :: coltype
  notNull :: bool
  hasDefault :: bool

definition col :: "coltype \<Rightarrow> bool \<Rightarrow> bool \<Rightarrow> column" where
  "col t nn d = \<lparr>ctype = t, notNull = nn, hasDefault = d\<rparr>"

text \<open>The \<open>issues\<close> table, column by column, in the order of the source.\<close>

definition issues :: "(string \<times> column) list" where
  "issues =
    [(''id'', col PgUuid True True),
     (''title'', col PgText True False),
     (''type'', col (PgVarchar (Some 50)) True False),
     (''description'', col PgText True False),
     (''impact'', col (PgVarchar (Some 20)) True False),
     (''status'', col (PgVarchar (Some 20)) True False),
     (''expectedFixDate'', col PgTimestamp False False),
     (''createdBy'', col (PgVarchar None) False False),
     (''updatedBy'', col (PgVarchar None) False False),
     (''createdAt'', col PgTimestamp False True),
     (''updatedAt'', col PgTimestamp False True)]"

section \<open>The validation library\<close>

text \<open>
  \<open>createInsertSchema\<close> (drizzle-zod) gives one zod schema per column:
  \<open>z.string()\<close> for text,
      \<open>z.string().max(n)\<close> for a varchar of length \<open>n\<close>,
  \<open>z.string().uuid()\<close> for a uuid,
      \<open>z.date()\<close> for a timestamp; a column that may be
  null is \<open>.nullable().optional()\<close>,
      a column with a default is \<open>.optional()\<close>.
\<close>

datatype zbase = ZString "nat option" | ZUuid | ZDate

record zfield =
  base :: zbase
  nullable :: bool
  optional :: bool

type_synonym zobject = "(string \<times> zfield) list"

definition columnSchema :: "column \<Rightarrow> zfield" where
  "columnSchema c =
    \<lparr>base = (case ctype c of
               PgUuid \<Rightarrow> ZUuid
             | PgText \<Rightarrow> ZString None
             | PgVarchar n \<Rightarrow> ZString n
             | PgTimestamp \<Rightarrow> ZDate),
     nullable = (\<not> notNull c),
     optional = (if notNull c then hasDefault c else True)\<rparr>"

definition createInsertSchema :: "(string \<times> column) list \<Rightarrow> zobject" where
  "createInsertSchema tbl = map (\<lambda>(k, c). (k, columnSchema c)) tbl"

definition omit :: "string list \<Rightarrow> zobject \<Rightarrow> zobject" where
  "omit ks sch = filter (\<lambda>(k, f). k \<notin> set ks) sch"

definition partial :: "zobject \<Rightarrow> zobject" where
  "partial sch = map (\<lambda>(k, f). (k, f\<lparr>optional := True\<rparr>)) sch"

text \<open>
  The uuid check of \<open>z.string().uuid()\<close>: five groups of 8, 4, 4, 4 and 12 hexadecimal
  digits, separated by dashes. (Older releases of zod also constrain the version digit;
  the uuids used below pass both patterns.)
\<close>

definition isHex :: "char \<Rightarrow> bool" where
  "isHex c = (c \<in> set ''0123456789abcdefABCDEF'')"

definition uuidMask :: string where
  "uuidMask = ''xxxxxxxx-xxxx-xxxx-xxxx-xxxxxxxxxxxx''"

definition isUuid :: "string \<Rightarrow> bool" where
  "isUuid s =
    (length s = length uuidMask \<and>
     list_all (\<lambda>(m, c). if m = CHR ''-'' then c = CHR ''-'' else isHex c) (zip uuidMask s))"

text \<open>
  One validation issue of a \<open>ZodError\<close>: the path (the field) and the code.
  \<open>z.date()\<close> accepts a \<open>Date\<close> object only: a timestamp sent as a JSON string is an
  issue \<open>invalid_type\<close>. An optional field accepts \<open>undefined\<close> (the key is absent), a
  nullable field accepts \<open>null\<close>.
\<close>

datatype zissue = ZIssue string string

fun parseBase :: "zbase \<Rightarrow> jsval \<Rightarrow> string option" where
  "parseBase (ZString None) (JStr s) = None"
| "parseBase (ZString (Some n)) (JStr s) = (if n < length s then Some ''too_big'' else None)"
| "parseBase ZUuid (JStr s) = (if isUuid s then None else Some ''invalid_string'')"
| "parseBase ZDate (JDate t) = None"
| "parseBase _ _ = Some ''invalid_type''"

definition parseField :: "zfield \<Rightarrow> jsval \<Rightarrow> string option" where
  "parseField f v =
    (if isUndefined v \<and> optional f then None
     else if isNull v \<and> nullable f then None
     else parseBase (base f) v)"

definition fieldIssues :: "zobject \<Rightarrow>
    (string \<times> jsval) list \<Rightarrow> zissue list" where
  "fieldIssues sch kvs =
    concat (map (\<lambda>(k, f). case parseField f (getProp kvs k) of
                             None \<Rightarrow> []
                           | Some code \<Rightarrow> [ZIssue k code]) sch)"

text \<open>
  A \<open>z.object\<close> that is not strict keeps the keys of its shape and drops every other
  key of the input without an issue.
\<close>

definition strip :: "zobject \<Rightarrow> (string \<times> jsval) list \<Rightarrow>
    (string \<times> jsval) list" where
  "strip sch kvs =
    concat (map (\<lambda>(k, f). if isUndefined
        (getProp kvs k) then [] else [(k, getProp kvs k)]) sch)"

fun parse :: "zobject \<Rightarrow> jsval \<Rightarrow> zissue list +
    (string \<times> jsval) list" where
  "parse sch (JObj kvs) =
    (if fieldIssues sch kvs = [] then Inr (strip sch kvs) else Inl (fieldIssues sch kvs))"
| "parse sch _ = Inl [ZIssue [] ''invalid_type'']"

section \<open>shared/schema.ts: the validation schemas\<close>

definition insertIssueSchema :: zobject where
  "insertIssueSchema =
    omit [''id'', ''createdBy'', ''updatedBy'', ''createdAt'', ''updatedAt'']
      (createInsertSchema issues)"

definition updateIssueSchema :: zobject where
  "updateIssueSchema =
    partial (omit [''createdBy'', ''createdAt'', ''updatedBy'', ''updatedAt'']
      (createInsertSchema issues))"

section \<open>The rows of the tables\<close>

text \<open>
  \<open>Issue = typeof issues.$inferSelect\<close>: a column that is not \<open>notNull()\<close> may hold
  null. Timestamps are milliseconds.
\<close>

record Issue =
  id_col :: string
  title :: string
  type_col :: string
  description :: string
  impact :: string
  status :: string
  expectedFixDate :: "int option"
  createdBy :: "string option"
  updatedBy :: "string option"
  createdAt :: "int option"
  updatedAt :: "int option"

record User =
  user_id :: string
  email :: "string option"
  firstName :: "string option"
  lastName :: "string option"
  profileImageUrl :: "string option"

text \<open>A row of \<open>sessions\<close>: the subject of the provider claims and the expiry.\<close>

record session =
  sub :: string
  expire :: int

section \<open>The world of one server\<close>

datatype operation = Create | Update | Delete

text \<open>The calls made to the Record Store and to the Mirror Sync, in order.\<close>

datatype call =
    CallGetUser string
  | CallGetAllIssues
  | CallGetIssue string
  | CallCreateIssue string
  | CallUpdateIssue string "(string \<times> jsval) list" string
  | CallDeleteIssue string
  | CallSyncIssue Issue operation

record world =
  issuesTable :: "Issue list"
  usersTable :: "User list"
  sessionsTable :: "(string \<times> session) list"
  sheet :: "(string \<times> Issue) list"
  console :: "string list"
  calls :: "call list"

text \<open>
  What a request finds outside the program: the server clock, the value that
  \<open>gen_random_uuid()\<close> returns, and whether the spreadsheet service answers.
\<close>

record env =
  now :: int
  randomUuid :: string
  sheetsOk :: bool

datatype error = ZodError "zissue list" | StoreError string | SheetsError string

definition called :: "call \<Rightarrow> world \<Rightarrow> world" where
  "called c w = w\<lparr>calls := calls w @ [c]\<rparr>"

definition consoleError :: "string \<Rightarrow> world \<Rightarrow> world" where
  "consoleError msg w = w\<lparr>console := console w @ [msg]\<rparr>"

section \<open>Record Store\<close>

fun asString :: "jsval \<Rightarrow> string option" where
  "asString (JStr s) = Some s"
| "asString _ = None"

fun asDate :: "jsval \<Rightarrow> int option" where
  "asDate (JDate t) = Some t"
| "asDate _ = None"

definition stringOr :: "string \<Rightarrow> jsval \<Rightarrow> string" where
  "stringOr old v = (case asString v of None \<Rightarrow> old | Some s \<Rightarrow> s)"

definition dateOr :: "int option \<Rightarrow> jsval \<Rightarrow> int option" where
  "dateOr old v = (if isUndefined v then old else asDate v)"

definition ids :: "Issue list \<Rightarrow> string list" where
  "ids rows = map id_col rows"

text \<open>
  Modelled from the spec: \<open>storage.getIssue\<close> (server/storage.ts is not among the
  sources). \<open>getIssue(id) -> Issue | not-found\<close>.
\<close>

definition getIssue :: "string \<Rightarrow> world \<Rightarrow>
    (error + Issue option) \<times> world" where
  "getIssue i w = (Inr (find (\<lambda>r. id_col r
      = i) (issuesTable w)), called (CallGetIssue i) w)"

text \<open>
  Modelled from the spec: \<open>storage.getUser\<close>. \<open>getUser(id) -> User | not-found\<close>.
\<close>

definition getUser :: "string \<Rightarrow> world \<Rightarrow>
    (error + User option) \<times> world" where
  "getUser i w = (Inr (find (\<lambda>u. user_id u = i) (usersTable w)), called (CallGetUser i) w)"

definition toLower :: "char \<Rightarrow> char" where
  "toLower c =
    (case map_of (zip ''ABCDEFGHIJKLMNOPQRSTUVWXYZ'' ''abcdefghijklmnopqrstuvwxyz'') c of
       None \<Rightarrow> c
     | Some l \<Rightarrow> l)"

fun startsWith :: "string \<Rightarrow> string \<Rightarrow> bool" where
  "startsWith s [] = True"
| "startsWith [] (p # ps) = False"
| "startsWith (c # cs) (p # ps) = (c = p \<and> startsWith cs ps)"

fun includesStr :: "string \<Rightarrow> string \<Rightarrow> bool" where
  "includesStr [] p = startsWith [] p"
| "includesStr (c # cs) p = (startsWith (c # cs) p \<or> includesStr cs p)"

record filters =
  filterStatus :: "string option"
  filterType :: "string option"
  filterSearch :: "string option"

definition matches :: "filters \<Rightarrow> Issue \<Rightarrow> bool" where
  "matches f r =
    ((case filterStatus f of None \<Rightarrow> True | Some s \<Rightarrow> status r = s) \<and>
     (case filterType f of None \<Rightarrow> True | Some t \<Rightarrow> type_col r = t) \<and>
     (case filterSearch f of
        None \<Rightarrow> True
      | Some q \<Rightarrow> includesStr (map toLower (title r)) (map toLower q)
                \<or> includesStr (map toLower (description r)) (map toLower q)))"

text \<open>
  Modelled from the spec: \<open>storage.getAllIssues\<close>. The filters combine with logical
  AND; \<open>search\<close> matches a case-insensitive substring against title or description;
  no filter returns all records, in insertion order.
\<close>

definition getAllIssues :: "filters \<Rightarrow> world \<Rightarrow>
    (error + Issue list) \<times> world" where
  "getAllIssues f w = (Inr (filter (matches f) (issuesTable w)), called CallGetAllIssues w)"

text \<open>
  Modelled from the spec: \<open>storage.createIssue\<close>. It assigns the id and the
  timestamps, sets \<open>createdBy = updatedBy
      = actorId\<close>, and \<open>status\<close> defaults to
  \<open>open\<close> if unspecified. Its argument has the type \<open>InsertIssue\<close>,
      the output of
  \<open>insertIssueSchema.parse\<close> in the handler. The id is the primary key of the table:
  an insert with an id that a row already has fails.
\<close>

definition newIssue :: "env \<Rightarrow>
    (string \<times> jsval) list \<Rightarrow> string \<Rightarrow> Issue" where
  "newIssue e d actorId =
    \<lparr>id_col = randomUuid e,
     title = stringOr [] (getProp d ''title''),
     type_col = stringOr [] (getProp d ''type''),
     description = stringOr [] (getProp d ''description''),
     impact = stringOr [] (getProp d ''impact''),
     status = stringOr ''open'' (getProp d ''status''),
     expectedFixDate = asDate (getProp d ''expectedFixDate''),
     createdBy = Some actorId,
     updatedBy = Some actorId,
     createdAt = Some (now e),
     updatedAt = Some (now e)\<rparr>"

definition createIssue ::
  "env \<Rightarrow> (string \<times> jsval) list \<Rightarrow> string \<Rightarrow> world \<Rightarrow> (error + Issue) \<times> world" where
  "createIssue e d actorId w =
    (if randomUuid e \<in> set (ids (issuesTable w))
     then (Inl (StoreError ''duplicate key''), called (CallCreateIssue actorId) w)
     else (Inr (newIssue e d actorId),
           called (CallCreateIssue actorId)
             (w\<lparr>issuesTable := issuesTable w @ [newIssue e d actorId]\<rparr>)))"

text \<open>
  Modelled from the spec: \<open>storage.updateIssue\<close>. It merges only the provided fields,
  sets \<open>updatedBy = actorId\<close> and \<open>updatedAt = now\<close>, and gives not-found when no row
  has the id. Its argument has the type \<open>UpdateIssue\<close>, the output of
  \<open>updateIssueSchema.parse\<close>. The id is immutable: an \<open>id\<close> in the data is not
  applied, and neither are \<open>createdBy\<close> and \<open>createdAt\<close>. The call records the data it
  was given.
\<close>

definition merge :: "env \<Rightarrow>
    (string \<times> jsval) list \<Rightarrow> string \<Rightarrow> Issue \<Rightarrow> Issue" where
  "merge e d actorId r =
    r\<lparr>title := stringOr (title r) (getProp d ''title''),
      type_col := stringOr (type_col r) (getProp d ''type''),
      description := stringOr (description r) (getProp d ''description''),
      impact := stringOr (impact r) (getProp d ''impact''),
      status := stringOr (status r) (getProp d ''status''),
      expectedFixDate := dateOr (expectedFixDate r) (getProp d ''expectedFixDate''),
      updatedBy := Some actorId,
      updatedAt := Some (now e)\<rparr>"

definition updateIssue ::
  "env \<Rightarrow> string \<Rightarrow>
      (string \<times> jsval) list \<Rightarrow> string \<Rightarrow> world
     \<Rightarrow> (error + Issue option) \<times> world" where
  "updateIssue e i d actorId w =
    (case find (\<lambda>r. id_col r = i) (issuesTable w) of
       None \<Rightarrow> (Inr None, called (CallUpdateIssue i d actorId) w)
     | Some r \<Rightarrow>
        (Inr (Some (merge e d actorId r)),
         called (CallUpdateIssue i d actorId)
           (w\<lparr>issuesTable :=
                map (\<lambda>x. if id_col x = i then merge e d actorId x else x)
                  (issuesTable w)\<rparr>)))"

text \<open>
  Modelled from the spec: \<open>storage.deleteIssue\<close>. \<open>deleteIssue(id) -> boolean\<close>: true
  if a record existed and was removed, false otherwise.
\<close>

definition deleteIssue :: "string \<Rightarrow> world \<Rightarrow>
    (error + bool) \<times> world" where
  "deleteIssue i w =
    (Inr (i \<in> set (ids (issuesTable w))),
     called (CallDeleteIssue i)
       (w\<lparr>issuesTable := filter (\<lambda>r. id_col r \<noteq> i) (issuesTable w)\<rparr>))"

section \<open>Mirror Sync\<close>

text \<open>
  Modelled from the spec: the write to the spreadsheet service. On create and update
  the mirror holds one row per issue id, overwritten in place; on delete the row is
  removed. The write fails when the service does not answer.
\<close>

definition writeSheet ::
  "env \<Rightarrow> Issue \<Rightarrow> operation \<Rightarrow>
      (string \<times> Issue) list \<Rightarrow> error + (string \<times> Issue) list" where
  "writeSheet e issue op rows =
    (if \<not> sheetsOk e then Inl (SheetsError ''spreadsheet service failed'')
     else Inr (case op of
                 Create \<Rightarrow> AList.update (id_col issue) issue rows
               | Update \<Rightarrow> AList.update (id_col issue) issue rows
               | Delete \<Rightarrow> AList.delete (id_col issue) rows))"

text \<open>
  Modelled from the spec: \<open>googleSheetsService.syncIssueToSheets\<close>
  (server/services/googleSheets.ts is not among the sources). A synchronization failure
  is logged and never propagates past the Mirror Sync component: the call returns.
\<close>

definition syncIssueToSheets ::
  "env \<Rightarrow> Issue \<Rightarrow> operation \<Rightarrow> world \<Rightarrow>
      (error + unit) \<times> world" where
  "syncIssueToSheets e issue op w =
    (case writeSheet e issue op (sheet w) of
       Inl err \<Rightarrow> (Inr (), consoleError ''Error syncing to Google Sheets:''
                              (called (CallSyncIssue issue op) w))
     | Inr rows \<Rightarrow> (Inr (), (called
         (CallSyncIssue issue op) w)\<lparr>sheet := rows\<rparr>))"


section \<open>Auth Gate\<close>

datatype route =
    GetAuthUser
  | GetIssues
  | GetIssueById
  | PostIssues
  | PutIssueById
  | DeleteIssueById

text \<open>
  A request: the route it matches, the session id of its cookie if it has one,
  \<open>req.params.id\<close>, the three query parameters that the list route reads, and
  \<open>req.body\<close>.
\<close>

record request =
  route :: route
  cookie :: "string option"
  paramsId :: string
  queryStatus :: "string option"
  queryType :: "string option"
  querySearch :: "string option"
  body :: jsval

record response =
  statusCode :: nat
  json :: jsval

text \<open>
  Modelled from the spec: the middleware \<open>isAuthenticated\<close> (server/replitAuth.ts is
  not among the sources). It validates the session of the request against the session
  store; a missing session, an unknown session id and an expired session fail. On
  success the handler reads the subject as \<open>req.user.claims.sub\<close>.
\<close>

definition isAuthenticated :: "env \<Rightarrow> world \<Rightarrow> request \<Rightarrow> string option" where
  "isAuthenticated e w req =
    (case cookie req of
       None \<Rightarrow> None
     | Some sid \<Rightarrow>
        (case map_of (sessionsTable w) sid of
           None \<Rightarrow> None
         | Some s \<Rightarrow> if expire s < now e then None else Some (sub s)))"

section \<open>server/routes.ts\<close>

definition message :: "string \<Rightarrow> jsval" where
  "message m = JObj [(''message'', JStr m)]"

definition respond :: "nat \<Rightarrow> jsval \<Rightarrow> response" where
  "respond c v = \<lparr>statusCode = c, json = v\<rparr>"

definition dateJson :: "int option \<Rightarrow> jsval" where
  "dateJson d = (case d of None \<Rightarrow> JNull | Some t \<Rightarrow> JDate t)"

definition stringJson :: "string option \<Rightarrow> jsval" where
  "stringJson x = (case x of None \<Rightarrow> JNull | Some s \<Rightarrow> JStr s)"

definition issueJson :: "Issue \<Rightarrow> jsval" where
  "issueJson issue =
    JObj [(''id'', JStr (id_col issue)),
          (''title'', JStr (title issue)),
          (''type'', JStr (type_col issue)),
          (''description'', JStr (description issue)),
          (''impact'', JStr (impact issue)),
          (''status'', JStr (status issue)),
          (''expectedFixDate'', dateJson (expectedFixDate issue)),
          (''createdBy'', stringJson (createdBy issue)),
          (''updatedBy'', stringJson (updatedBy issue)),
          (''createdAt'', dateJson (createdAt issue)),
          (''updatedAt'', dateJson (updatedAt issue))]"

definition userJson :: "User \<Rightarrow> jsval" where
  "userJson u =
    JObj [(''id'', JStr (user_id u)),
          (''email'', stringJson (email u)),
          (''firstName'', stringJson (firstName u)),
          (''lastName'', stringJson (lastName u)),
          (''profileImageUrl'', stringJson (profileImageUrl u))]"

fun zissueJson :: "zissue \<Rightarrow> jsval" where
  "zissueJson (ZIssue path code) = JObj [(''path'', JStr path), (''code'', JStr code)]"

text \<open>The object that both public routes build from an issue.\<close>

definition publicIssue :: "Issue \<Rightarrow> jsval" where
  "publicIssue issue =
    JObj [(''id'', JStr (id_col issue)),
          (''title'', JStr (title issue)),
          (''type'', JStr (type_col issue)),
          (''description'', JStr (description issue)),
          (''impact'', JStr (impact issue)),
          (''status'', JStr (status issue)),
          (''expectedFixDate'', dateJson (expectedFixDate issue)),
          (''createdAt'', dateJson (createdAt issue)),
          (''updatedAt'', dateJson (updatedAt issue))]"

text \<open>\<open>schema.parse(req.body)\<close> throws a \<open>ZodError\<close> with the issues.\<close>

definition parseOrThrow :: "zobject \<Rightarrow> jsval \<Rightarrow> error +
    (string \<times> jsval) list" where
  "parseOrThrow sch v = (case parse sch v of Inl errs \<Rightarrow> Inl
      (ZodError errs) | Inr d \<Rightarrow> Inr d)"

text \<open>The \<open>catch\<close> blocks: log the error and answer 500.\<close>

definition failed :: "string \<Rightarrow> string \<Rightarrow> world \<Rightarrow> response \<times> world" where
  "failed logged msg w = (respond 500 (message msg), consoleError logged w)"

text \<open>The \<open>catch\<close> blocks of POST and PUT: a \<open>ZodError\<close> is answered 400 first.\<close>

definition failedOrInvalid :: "error \<Rightarrow> string \<Rightarrow> string \<Rightarrow> world \<Rightarrow> response \<times> world" where
  "failedOrInvalid err logged msg w =
    (case err of
       ZodError errs \<Rightarrow>
         (respond 400 (JObj [(''message'', JStr ''Validation error''),
                             (''errors'', JArr (map zissueJson errs))]), w)
     | StoreError x \<Rightarrow> failed logged msg w
     | SheetsError x \<Rightarrow> failed logged msg w)"

definition getAuthUserHandler :: "string \<Rightarrow> world \<Rightarrow> response \<times> world" where
  "getAuthUserHandler userId w =
    (case getUser userId w of
       (Inl err, w1) \<Rightarrow> failed ''Error fetching user:'' ''Failed to fetch user'' w1
     | (Inr user, w1) \<Rightarrow>
         (respond 200 (case user of None \<Rightarrow> JUndefined | Some u \<Rightarrow> userJson u), w1))"

definition getIssuesHandler :: "request \<Rightarrow> world \<Rightarrow> response \<times> world" where
  "getIssuesHandler req w =
    (case getAllIssues \<lparr>filterStatus = queryStatus req, filterType = queryType req,
                        filterSearch = querySearch req\<rparr> w of
       (Inl err, w1) \<Rightarrow> failed ''Error fetching issues:'' ''Failed to fetch issues'' w1
     | (Inr found, w1) \<Rightarrow> (respond 200 (JArr (map publicIssue found)), w1))"

definition getIssueHandler :: "request \<Rightarrow> world \<Rightarrow> response \<times> world" where
  "getIssueHandler req w =
    (case getIssue (paramsId req) w of
       (Inl err, w1) \<Rightarrow> failed ''Error fetching issue:'' ''Failed to fetch issue'' w1
     | (Inr None, w1) \<Rightarrow> (respond 404 (message ''Issue not found''), w1)
     | (Inr (Some issue), w1) \<Rightarrow> (respond 200 (publicIssue issue), w1))"

text \<open>
  The three mutating handlers, with the call \<open>googleSheetsService.syncIssueToSheets\<close>
  as a parameter: the call returns (\<open>Inr\<close>) or throws (\<open>Inl\<close>), and a throw is caught
  by the \<open>catch\<close> of the handler.
\<close>

type_synonym syncCall
    = "Issue \<Rightarrow> operation \<Rightarrow> world \<Rightarrow>
        (error + unit) \<times> world"

definition postIssueHandlerWith ::
  "syncCall \<Rightarrow> env \<Rightarrow> string \<Rightarrow> request \<Rightarrow> world \<Rightarrow> response \<times> world" where
  "postIssueHandlerWith sync e userId req w =
    (case parseOrThrow insertIssueSchema (body req) of
       Inl err \<Rightarrow> failedOrInvalid err ''Error creating issue:'' ''Failed to create issue'' w
     | Inr validatedData \<Rightarrow>
        (case createIssue e validatedData userId w of
           (Inl err, w1) \<Rightarrow>
             failedOrInvalid err ''Error creating issue:'' ''Failed to create issue'' w1
         | (Inr issue, w1) \<Rightarrow>
            (case sync issue Create w1 of
               (Inl err, w2) \<Rightarrow>
                 failedOrInvalid err ''Error creating issue:'' ''Failed to create issue'' w2
             | (Inr u, w2) \<Rightarrow> (respond 201 (issueJson issue), w2))))"

definition putIssueHandlerWith ::
  "syncCall \<Rightarrow> env \<Rightarrow> string \<Rightarrow> request \<Rightarrow> world \<Rightarrow> response \<times> world" where
  "putIssueHandlerWith sync e userId req w =
    (case parseOrThrow updateIssueSchema (body req) of
       Inl err \<Rightarrow> failedOrInvalid err ''Error updating issue:'' ''Failed to update issue'' w
     | Inr validatedData \<Rightarrow>
        (case updateIssue e (paramsId req) validatedData userId w of
           (Inl err, w1) \<Rightarrow>
             failedOrInvalid err ''Error updating issue:'' ''Failed to update issue'' w1
         | (Inr None, w1) \<Rightarrow> (respond 404 (message ''Issue not found''), w1)
         | (Inr (Some issue), w1) \<Rightarrow>
            (case sync issue Update w1 of
               (Inl err, w2) \<Rightarrow>
                 failedOrInvalid err ''Error updating issue:'' ''Failed to update issue'' w2
             | (Inr u, w2) \<Rightarrow> (respond 200 (issueJson issue), w2))))"

definition deleteIssueHandlerWith ::
  "syncCall \<Rightarrow> env \<Rightarrow> request \<Rightarrow> world \<Rightarrow> response \<times> world" where
  "deleteIssueHandlerWith sync e req w =
    (case getIssue (paramsId req) w of
       (Inl err, w1) \<Rightarrow> failed ''Error deleting issue:'' ''Failed to delete issue'' w1
     | (Inr None, w1) \<Rightarrow> (respond 404 (message ''Issue not found''), w1)
     | (Inr (Some issue), w1) \<Rightarrow>
        (case deleteIssue (paramsId req) w1 of
           (Inl err, w2) \<Rightarrow> failed ''Error deleting issue:'' ''Failed to delete issue'' w2
         | (Inr False, w2) \<Rightarrow> (respond 404 (message ''Issue not found''), w2)
         | (Inr True, w2) \<Rightarrow>
            (case sync issue Delete w2 of
               (Inl err, w3) \<Rightarrow> failed ''Error deleting issue:'' ''Failed to delete issue'' w3
             | (Inr u, w3) \<Rightarrow> (respond 204 JUndefined, w3))))"

text \<open>The handlers with the Mirror Sync as the spec describes it.\<close>

definition postIssueHandler :: "env \<Rightarrow> string \<Rightarrow> request \<Rightarrow> world \<Rightarrow> response \<times> world" where
  "postIssueHandler e userId req w = postIssueHandlerWith (syncIssueToSheets e) e userId req w"

definition putIssueHandler :: "env \<Rightarrow> string \<Rightarrow> request \<Rightarrow> world \<Rightarrow> response \<times> world" where
  "putIssueHandler e userId req w = putIssueHandlerWith (syncIssueToSheets e) e userId req w"

definition deleteIssueHandler :: "env \<Rightarrow> request \<Rightarrow> world \<Rightarrow> response \<times> world" where
  "deleteIssueHandler e req w = deleteIssueHandlerWith (syncIssueToSheets e) e req w"

text \<open>
  A route registered with \<open>isAuthenticated\<close> runs its handler only when the
  middleware passes; otherwise the middleware answers and the handler does not run.
\<close>

definition withAuth ::
  "env \<Rightarrow> request \<Rightarrow> world \<Rightarrow>
      (string \<Rightarrow> world \<Rightarrow> response \<times> world) \<Rightarrow> response \<times> world" where
  "withAuth e req w handler =
    (case isAuthenticated e w req of
       None \<Rightarrow> (respond 401 (message ''Unauthorized''), w)
     | Some userId \<Rightarrow> handler userId w)"

text \<open>
  \<open>registerRoutes\<close>: the six routes, each with its middleware as registered.
\<close>

definition handle :: "env \<Rightarrow> request \<Rightarrow> world \<Rightarrow> response \<times> world" where
  "handle e req w =
    (case route req of
       GetAuthUser \<Rightarrow> withAuth e req w getAuthUserHandler
     | GetIssues \<Rightarrow> getIssuesHandler req w
     | GetIssueById \<Rightarrow> getIssueHandler req w
     | PostIssues \<Rightarrow> withAuth e req w (\<lambda>userId. postIssueHandler e userId req)
     | PutIssueById \<Rightarrow> withAuth e req w (\<lambda>userId. putIssueHandler e userId req)
     | DeleteIssueById \<Rightarrow> withAuth e req w (\<lambda>userId. deleteIssueHandler e req))"

text \<open>
  The server answers its requests one after the other, each in its own environment.
\<close>

fun serve :: "(env \<times> request) list \<Rightarrow> world \<Rightarrow> world" where
  "serve [] w = w"
| "serve ((e, req) # rest) w = serve rest (snd (handle e req w))"

section \<open>The handlers with the Mirror Sync of the spec\<close>

lemma postIssueHandler_eq:
  "postIssueHandler e userId req w =
    (case parseOrThrow insertIssueSchema (body req) of
       Inl err \<Rightarrow> failedOrInvalid err ''Error creating issue:'' ''Failed to create issue'' w
     | Inr validatedData \<Rightarrow>
        (case createIssue e validatedData userId w of
           (Inl err, w1) \<Rightarrow>
             failedOrInvalid err ''Error creating issue:'' ''Failed to create issue'' w1
         | (Inr issue, w1) \<Rightarrow>
            (case syncIssueToSheets e issue Create w1 of
               (Inl err, w2) \<Rightarrow>
                 failedOrInvalid err ''Error creating issue:'' ''Failed to create issue'' w2
             | (Inr u, w2) \<Rightarrow> (respond 201 (issueJson issue), w2))))"
  by (simp add: postIssueHandler_def postIssueHandlerWith_def)

lemma putIssueHandler_eq:
  "putIssueHandler e userId req w =
    (case parseOrThrow updateIssueSchema (body req) of
       Inl err \<Rightarrow> failedOrInvalid err ''Error updating issue:'' ''Failed to update issue'' w
     | Inr validatedData \<Rightarrow>
        (case updateIssue e (paramsId req) validatedData userId w of
           (Inl err, w1) \<Rightarrow>
             failedOrInvalid err ''Error updating issue:'' ''Failed to update issue'' w1
         | (Inr None, w1) \<Rightarrow> (respond 404 (message ''Issue not found''), w1)
         | (Inr (Some issue), w1) \<Rightarrow>
            (case syncIssueToSheets e issue Update w1 of
               (Inl err, w2) \<Rightarrow>
                 failedOrInvalid err ''Error updating issue:'' ''Failed to update issue'' w2
             | (Inr u, w2) \<Rightarrow> (respond 200 (issueJson issue), w2))))"
  by (simp add: putIssueHandler_def putIssueHandlerWith_def)

lemma deleteIssueHandler_eq:
  "deleteIssueHandler e req w =
    (case getIssue (paramsId req) w of
       (Inl err, w1) \<Rightarrow> failed ''Error deleting issue:'' ''Failed to delete issue'' w1
     | (Inr None, w1) \<Rightarrow> (respond 404 (message ''Issue not found''), w1)
     | (Inr (Some issue), w1) \<Rightarrow>
        (case deleteIssue (paramsId req) w1 of
           (Inl err, w2) \<Rightarrow> failed ''Error deleting issue:'' ''Failed to delete issue'' w2
         | (Inr False, w2) \<Rightarrow> (respond 404 (message ''Issue not found''), w2)
         | (Inr True, w2) \<Rightarrow>
            (case syncIssueToSheets e issue Delete w2 of
               (Inl err, w3) \<Rightarrow> failed ''Error deleting issue:'' ''Failed to delete issue'' w3
             | (Inr u, w3) \<Rightarrow> (respond 204 JUndefined, w3))))"
  by (simp add: deleteIssueHandler_def deleteIssueHandlerWith_def)

section \<open>The shapes of the two schemas\<close>

lemma insertIssueSchema_shape:
  "insertIssueSchema =
    [(''title'', \<lparr>base = ZString None, nullable = False, optional = False\<rparr>),
     (''type'', \<lparr>base = ZString (Some 50), nullable = False, optional = False\<rparr>),
     (''description'', \<lparr>base = ZString None, nullable = False, optional = False\<rparr>),
     (''impact'', \<lparr>base = ZString (Some 20), nullable = False, optional = False\<rparr>),
     (''status'', \<lparr>base = ZString (Some 20), nullable = False, optional = False\<rparr>),
     (''expectedFixDate'', \<lparr>base = ZDate, nullable = True, optional = True\<rparr>)]"
  by (simp add: insertIssueSchema_def omit_def createInsertSchema_def issues_def col_def
      columnSchema_def)

lemma updateIssueSchema_shape:
  "updateIssueSchema =
    [(''id'', \<lparr>base = ZUuid, nullable = False, optional = True\<rparr>),
     (''title'', \<lparr>base = ZString None, nullable = False, optional = True\<rparr>),
     (''type'', \<lparr>base = ZString (Some 50), nullable = False, optional = True\<rparr>),
     (''description'', \<lparr>base = ZString None, nullable = False, optional = True\<rparr>),
     (''impact'', \<lparr>base = ZString (Some 20), nullable = False, optional = True\<rparr>),
     (''status'', \<lparr>base = ZString (Some 20), nullable = False, optional = True\<rparr>),
     (''expectedFixDate'', \<lparr>base = ZDate, nullable = True, optional = True\<rparr>)]"
  by (simp add: updateIssueSchema_def partial_def omit_def createInsertSchema_def issues_def
      col_def columnSchema_def)

lemma getProp_filter:
  "P k \<Longrightarrow> getProp (filter (\<lambda>(k', v). P k') kvs) k = getProp kvs k"
  by (induction kvs) (auto simp: getProp_def)

lemma in_keysI: "(k, f) \<in> set sch \<Longrightarrow> k \<in> set (keys sch)"
  by (induction sch) (auto simp: keys_def)

lemma fieldIssues_cong:
  assumes "\<And>k. k \<in> set (keys sch) \<Longrightarrow> getProp kvs k = getProp kvs' k"
  shows "fieldIssues sch kvs = fieldIssues sch kvs'"
proof -
  have same: "getProp kvs k = getProp kvs' k" if "(k, f) \<in> set sch" for k f
    using assms [OF in_keysI [OF that]] .
  show ?thesis
    unfolding fieldIssues_def
    by (rule arg_cong [where f = concat], rule map_cong [OF refl]) (auto simp: same)
qed

lemma strip_cong:
  assumes "\<And>k. k \<in> set (keys sch) \<Longrightarrow> getProp kvs k = getProp kvs' k"
  shows "strip sch kvs = strip sch kvs'"
proof -
  have same: "getProp kvs k = getProp kvs' k" if "(k, f) \<in> set sch" for k f
    using assms [OF in_keysI [OF that]] .
  show ?thesis
    unfolding strip_def
    by (rule arg_cong [where f = concat], rule map_cong [OF refl]) (auto simp: same)
qed

lemma parse_cong:
  "(\<And>k. k \<in> set (keys sch) \<Longrightarrow> getProp kvs k = getProp kvs' k)
    \<Longrightarrow> parse sch (JObj kvs) = parse sch (JObj kvs')"
  using fieldIssues_cong [of sch kvs kvs'] strip_cong [of sch kvs kvs'] by simp

lemma strip_Nil: "strip [] kvs = []"
  by (simp add: strip_def)

lemma strip_Cons:
  "strip ((k, f) # sch) kvs =
    (if isUndefined (getProp kvs k) then [] else [(k, getProp kvs k)]) @ strip sch kvs"
  by (simp add: strip_def)

lemma keys_strip: "set (keys (strip sch kvs)) \<subseteq> set (keys sch)"
proof (induction sch)
  case Nil
  show ?case by (simp add: strip_Nil keys_def)
next
  case (Cons x sch)
  obtain k f where x: "x = (k, f)" by (cases x)
  from Cons show ?case
    unfolding x by (auto simp: strip_Cons keys_def)
qed

lemma keys_insertIssueSchema:
  "keys insertIssueSchema =
    [''title'', ''type'', ''description'', ''impact'', ''status'', ''expectedFixDate'']"
  by (simp add: insertIssueSchema_shape keys_def)

lemma parse_insert_ignores:
  "parse insertIssueSchema (JObj kvs) =
   parse insertIssueSchema
     (JObj (filter (\<lambda>(k, v). k \<notin> set [''id'', ''createdBy'', ''updatedBy'',
         ''createdAt'', ''updatedAt'']) kvs))"
  by (rule parse_cong, rule sym, rule getProp_filter) (auto simp: keys_insertIssueSchema)
section \<open>Validation of a creation payload\<close>

lemma fieldIssues_insert_empty_iff:
  "fieldIssues insertIssueSchema kvs = [] \<longleftrightarrow>
    parseBase (ZString None) (getProp kvs ''title'') = None \<and>
    parseBase (ZString (Some 50)) (getProp kvs ''type'') = None \<and>
    parseBase (ZString None) (getProp kvs ''description'') = None \<and>
    parseBase (ZString (Some 20)) (getProp kvs ''impact'') = None \<and>
    parseBase (ZString (Some 20)) (getProp kvs ''status'') = None \<and>
    (isUndefined (getProp kvs ''expectedFixDate'') \<or> isNull (getProp kvs ''expectedFixDate'')
      \<or> parseBase ZDate (getProp kvs ''expectedFixDate'') = None)"
  by (auto simp: insertIssueSchema_shape fieldIssues_def parseField_def split: option.splits)

lemma parseBase_string_None_iff:
  "parseBase (ZString m) v = None \<longleftrightarrow>
     (\<exists>s. v = JStr s \<and>
         (case m of None \<Rightarrow> True | Some n \<Rightarrow> length s \<le> n))"
  by (cases v; cases m) auto

lemma fieldIssues_status_missing:
  "isUndefined (getProp kvs ''status'') \<Longrightarrow> fieldIssues insertIssueSchema kvs \<noteq> []"
  by (cases "getProp kvs ''status''") (auto simp: fieldIssues_insert_empty_iff)

lemma strip_status:
  "getProp kvs ''status''
      = JStr s \<Longrightarrow> getProp (strip insertIssueSchema kvs) ''status'' = JStr s"
  by (simp add: insertIssueSchema_shape strip_def getProp_def)

lemma postIssueHandler_invalid:
  assumes "body req = JObj kvs" and "fieldIssues insertIssueSchema kvs \<noteq> []"
  shows "postIssueHandler e userId req w =
          (respond 400 (JObj [(''message'', JStr ''Validation error''),
                              (''errors'', JArr (map zissueJson
                                  (fieldIssues insertIssueSchema kvs)))]),
           w)"
  using assms by (simp add: postIssueHandler_eq parseOrThrow_def failedOrInvalid_def)

lemma postIssueHandler_created:
  assumes "postIssueHandler e userId req w = (r, w')" and "statusCode r = 201"
  shows "\<exists>d. parse insertIssueSchema (body req) = Inr d
            \<and> r = respond 201 (issueJson (newIssue e d userId))
            \<and> issuesTable w' = issuesTable w @ [newIssue e d userId]"
  using assms
  by (auto simp: postIssueHandler_eq parseOrThrow_def failedOrInvalid_def failed_def
      createIssue_def syncIssueToSheets_def respond_def called_def consoleError_def
      split: sum.splits prod.splits if_splits error.splits)

text \<open>
  C1, at a payload whose \<open>type\<close>,
      \<open>impact\<close> and \<open>status\<close> are outside the sets
  that the comments of the \<open>issues\<close> table list: \<open>insertIssueSchema.parse\<close> accepts the
  creation payload and \<open>updateIssueSchema.parse\<close> accepts the update payload, and both
  return the three values as they came. The schemas derived from the columns check
  that each is a string of at most 50, 20 and 20 characters, and nothing more.
\<close>

theorem C1_enum_values_accepted:
  "parse insertIssueSchema
     (JObj [(''title'', JStr ''Crash on save''), (''type'', JStr ''bogus''),
            (''description'', JStr ''It crashes''), (''impact'', JStr ''Severe''),
            (''status'', JStr ''wontfix'')])
   = Inr [(''title'', JStr ''Crash on save''), (''type'', JStr ''bogus''),
          (''description'', JStr ''It crashes''), (''impact'', JStr ''Severe''),
          (''status'', JStr ''wontfix'')]
   \<and> parse updateIssueSchema
        (JObj [(''type'', JStr ''bogus''), (''impact'', JStr ''Severe''),
               (''status'', JStr ''wontfix'')])
     = Inr [(''type'', JStr ''bogus''), (''impact'', JStr ''Severe''),
            (''status'', JStr ''wontfix'')]"
  by (simp add: insertIssueSchema_shape updateIssueSchema_shape fieldIssues_def
      parseField_def strip_def getProp_def)

text \<open>
  C2 fails as stated: the payload of the spec's own scenario, which omits \<open>status\<close>, is
  answered 400 by \<open>POST /api/issues\<close> for an authenticated user, with one issue on
  \<open>status\<close>,
      and the world is left as it was. The column \<open>status\<close> is \<open>notNull()\<close>
  without a default, so the creation shape requires it.
\<close>

theorem C2_omitted_status_counterexample:
  "handle
      \<lparr>now = 10, randomUuid = ''123e4567-e89b-42d3-a456-426614174000'', sheetsOk
          = True\<rparr>
     \<lparr>route = PostIssues, cookie = Some ''s1'', paramsId = [], queryStatus = None,
      queryType = None, querySearch = None,
      body = JObj [(''title'', JStr ''Crash on save''), (''type'', JStr ''issue''),
                   (''description'', JStr ''...''), (''impact'', JStr ''High'')]\<rparr>
     \<lparr>issuesTable = [], usersTable = [],
      sessionsTable = [(''s1'', \<lparr>sub = ''u1'', expire = 1000\<rparr>)],
      sheet = [], console = [], calls = []\<rparr>
   = (respond 400 (JObj [(''message'', JStr ''Validation error''),
                         (''errors'', JArr [JObj [(''path'', JStr ''status''),
                                                  (''code'', JStr ''invalid_type'')]])]),
      \<lparr>issuesTable = [], usersTable = [],
       sessionsTable = [(''s1'', \<lparr>sub = ''u1'', expire = 1000\<rparr>)],
       sheet = [], console = [], calls = []\<rparr>)"
  by (simp add: handle_def withAuth_def isAuthenticated_def postIssueHandler_eq
      parseOrThrow_def failedOrInvalid_def insertIssueSchema_shape fieldIssues_def
      parseField_def getProp_def)
text \<open>
  C2, amended: every creation payload that omits \<open>status\<close> is answered 400 by the POST
  handler and changes nothing; and whenever the POST handler answers 201, the payload
  carried a \<open>status\<close> string and the record created and stored has that status.
\<close>

theorem C2_status_required_on_create:
  "(body req = JObj kvs \<and> isUndefined (getProp kvs ''status'') \<longrightarrow>
       statusCode (fst (postIssueHandler e userId req w)) = 400
       \<and> snd (postIssueHandler e userId req w) = w)
   \<and> (body req = JObj kvs \<and> postIssueHandler e userId req w
       = (r, w') \<and> statusCode r = 201 \<longrightarrow>
       (\<exists>issue. r = respond 201 (issueJson issue) \<and> issuesTable w'
           = issuesTable w @ [issue]
          \<and> getProp kvs ''status'' = JStr (status issue)))"
proof (intro conjI impI)
  assume h: "body req = JObj kvs \<and> isUndefined (getProp kvs ''status'')"
  then have "fieldIssues insertIssueSchema kvs \<noteq> []"
    by (simp add: fieldIssues_status_missing)
  with h show "statusCode (fst (postIssueHandler e userId req w)) = 400"
    and "snd (postIssueHandler e userId req w) = w"
    by (simp_all add: postIssueHandler_invalid respond_def)
next
  assume h: "body req = JObj kvs \<and> postIssueHandler e userId req w
      = (r, w') \<and> statusCode r = 201"
  then obtain d where d: "parse insertIssueSchema (body req) = Inr d"
    and r: "r = respond 201 (issueJson (newIssue e d userId))"
    and t: "issuesTable w' = issuesTable w @ [newIssue e d userId]"
    using postIssueHandler_created by blast
  from d h have ok: "fieldIssues insertIssueSchema kvs = []" and dd: "d
      = strip insertIssueSchema kvs"
    by (auto split: if_splits)
  from ok obtain s where s: "getProp kvs ''status'' = JStr s"
    unfolding fieldIssues_insert_empty_iff parseBase_string_None_iff by blast
  have "status (newIssue e d userId) = s"
    using strip_status [OF s] by (simp add: newIssue_def dd stringOr_def)
  with s r t
  show "\<exists>issue. r = respond 201 (issueJson issue) \<and> issuesTable w'
      = issuesTable w @ [issue]
          \<and> getProp kvs ''status'' = JStr (status issue)"
    by blast
qed

text \<open>
  C2, amended, at two payloads: the one without \<open>status\<close> is answered 400; the one
  with \<open>status = assigned\<close> is answered 201 and the stored record has that status.
\<close>

theorem C2_status_required_on_create_witness:
  "(isUndefined (getProp [(''title'', JStr ''Crash on save''), (''type'', JStr ''issue''),
                   (''description'', JStr ''...''), (''impact'', JStr ''High'')] ''status'')
   \<and> statusCode (fst (postIssueHandler
        \<lparr>now = 10, randomUuid = ''123e4567-e89b-42d3-a456-426614174000'', sheetsOk
            = True\<rparr>
        ''u1''
        \<lparr>route = PostIssues, cookie = Some ''s1'', paramsId = [], queryStatus = None,
          queryType = None, querySearch = None,
          body = JObj [(''title'', JStr ''Crash on save''), (''type'', JStr ''issue''),
                   (''description'', JStr ''...''), (''impact'', JStr ''High'')]\<rparr>
        \<lparr>issuesTable = [], usersTable = [], sessionsTable = [],
          sheet = [], console = [], calls = []\<rparr>)) = 400)
   \<and> (statusCode (fst (postIssueHandler
        \<lparr>now = 10, randomUuid = ''123e4567-e89b-42d3-a456-426614174000'', sheetsOk
            = True\<rparr>
        ''u1''
        \<lparr>route = PostIssues, cookie = Some ''s1'', paramsId = [], queryStatus = None,
          queryType = None, querySearch = None,
          body = JObj [(''title'', JStr ''Crash on save''), (''type'', JStr ''issue''),
                   (''description'', JStr ''...''), (''impact'', JStr ''High''),
                   (''status'', JStr ''assigned'')]\<rparr>
        \<lparr>issuesTable = [], usersTable = [], sessionsTable = [],
          sheet = [], console = [], calls = []\<rparr>)) = 201
   \<and> map status (issuesTable (snd (postIssueHandler
        \<lparr>now = 10, randomUuid = ''123e4567-e89b-42d3-a456-426614174000'', sheetsOk
            = True\<rparr>
        ''u1''
        \<lparr>route = PostIssues, cookie = Some ''s1'', paramsId = [], queryStatus = None,
          queryType = None, querySearch = None,
          body = JObj [(''title'', JStr ''Crash on save''), (''type'', JStr ''issue''),
                   (''description'', JStr ''...''), (''impact'', JStr ''High''),
                   (''status'', JStr ''assigned'')]\<rparr>
        \<lparr>issuesTable = [], usersTable = [], sessionsTable = [],
          sheet = [], console = [], calls = []\<rparr>))) = [''assigned''])"
  (is "(?h1 \<and> ?c1) \<and> (?h2 \<and> ?c2)")
proof -
  let ?e = "\<lparr>now = 10, randomUuid = ''123e4567-e89b-42d3-a456-426614174000'', sheetsOk
      = True\<rparr>"
  let ?w = "\<lparr>issuesTable = [], usersTable = [], sessionsTable = [],
          sheet = [], console = [], calls = []\<rparr>"
  let ?k1 = "[(''title'', JStr ''Crash on save''), (''type'', JStr ''issue''),
                   (''description'', JStr ''...''), (''impact'', JStr ''High'')]"
  let ?k2 = "[(''title'', JStr ''Crash on save''), (''type'', JStr ''issue''),
                   (''description'', JStr ''...''), (''impact'', JStr ''High''),
                   (''status'', JStr ''assigned'')]"
  let ?r1 = "\<lparr>route = PostIssues, cookie = Some ''s1'', paramsId = [], queryStatus = None,
          queryType = None, querySearch = None, body = JObj ?k1\<rparr>"
  let ?r2 = "\<lparr>route = PostIssues, cookie = Some ''s1'', paramsId = [], queryStatus = None,
          queryType = None, querySearch = None, body = JObj ?k2\<rparr>"
  have h1: ?h1 by (simp add: getProp_def)
  have b1: "body ?r1 = JObj ?k1" by simp
  from C2_status_required_on_create [of ?r1 ?k1 ?e "''u1''" ?w] b1 h1 have c1: ?c1 by blast
  have h2: ?h2
    by (simp add: getProp_def postIssueHandler_eq parseOrThrow_def insertIssueSchema_shape
      fieldIssues_def parseField_def strip_def createIssue_def ids_def newIssue_def
      stringOr_def syncIssueToSheets_def writeSheet_def called_def respond_def)
  have b2: "body ?r2 = JObj ?k2" by simp
  have g: "getProp ?k2 ''status'' = JStr ''assigned''" by (simp add: getProp_def)
  obtain r w' where p: "postIssueHandler ?e ''u1'' ?r2 ?w = (r, w')"
    by (cases "postIssueHandler ?e ''u1'' ?r2 ?w")
  with h2 have "statusCode r = 201" by simp
  with C2_status_required_on_create [of ?r2 ?k2 ?e "''u1''" ?w r w'] b2 p
  obtain issue where "issuesTable w' = issuesTable ?w @ [issue]"
    and "getProp ?k2 ''status'' = JStr (status issue)"
    by blast
  with g have "map status (issuesTable w') = [''assigned'']" by simp
  with p have c2: ?c2 by simp
  from h1 c1 h2 c2 show ?thesis by blast
qed

text \<open>
  C4 fails as stated: a creation payload that carries \<open>id\<close>, \<open>createdBy\<close>,
  \<open>updatedBy\<close>,
      \<open>createdAt\<close> and \<open>updatedAt\<close> passes \<open>insertIssueSchema.parse\<close>;
  the five keys are dropped from the validated data.
\<close>

theorem C4_server_fields_counterexample:
  "parse insertIssueSchema
     (JObj [(''id'', JStr ''123e4567-e89b-42d3-a456-426614174000''),
            (''createdBy'', JStr ''mallory''), (''updatedBy'', JStr ''mallory''),
            (''createdAt'', JStr ''2020-01-01T00:00:00.000Z''),
            (''updatedAt'', JStr ''2020-01-01T00:00:00.000Z''),
            (''title'', JStr ''Crash on save''), (''type'', JStr ''issue''),
            (''description'', JStr ''It crashes''), (''impact'', JStr ''High''),
            (''status'', JStr ''open'')])
   = Inr [(''title'', JStr ''Crash on save''), (''type'', JStr ''issue''),
          (''description'', JStr ''It crashes''), (''impact'', JStr ''High''),
          (''status'', JStr ''open'')]"
  by (simp add: insertIssueSchema_shape fieldIssues_def parseField_def strip_def getProp_def)

text \<open>
  C4, amended: validation against the creation shape does not look at \<open>id\<close>,
  \<open>createdBy\<close>, \<open>updatedBy\<close>,
      \<open>createdAt\<close> and \<open>updatedAt\<close>: the result for a body is
  the result for the body without these keys, and the validated data never has one of
  them.
\<close>

theorem C4_server_fields_stripped:
  "parse insertIssueSchema (JObj kvs) =
     parse insertIssueSchema
       (JObj (filter (\<lambda>(k, v). k \<notin> set [''id'', ''createdBy'', ''updatedBy'',
           ''createdAt'',
                                            ''updatedAt'']) kvs))
   \<and> (parse insertIssueSchema (JObj kvs) = Inr d \<longrightarrow>
         ''id'' \<notin> set (keys d) \<and> ''createdBy'' \<notin> set
             (keys d) \<and> ''updatedBy'' \<notin> set (keys d)
         \<and> ''createdAt'' \<notin> set (keys d) \<and> ''updatedAt'' \<notin> set (keys d))"
proof (intro conjI impI)
  show "parse insertIssueSchema (JObj kvs) =
     parse insertIssueSchema
       (JObj (filter (\<lambda>(k, v). k \<notin> set [''id'', ''createdBy'', ''updatedBy'',
           ''createdAt'',
                                            ''updatedAt'']) kvs))"
    by (rule parse_insert_ignores)
next
  assume "parse insertIssueSchema (JObj kvs) = Inr d"
  then have "d = strip insertIssueSchema kvs"
    by (auto split: if_splits)
  then have sub: "set (keys d) \<subseteq> set (keys insertIssueSchema)"
    by (simp add: keys_strip)
  show "''id'' \<notin> set (keys d)" using sub unfolding keys_insertIssueSchema by auto
  show "''createdBy'' \<notin> set (keys d)" using sub unfolding keys_insertIssueSchema by auto
  show "''updatedBy'' \<notin> set (keys d)" using sub unfolding keys_insertIssueSchema by auto
  show "''createdAt'' \<notin> set (keys d)" using sub unfolding keys_insertIssueSchema by auto
  show "''updatedAt'' \<notin> set (keys d)" using sub unfolding keys_insertIssueSchema by auto
qed

text \<open>C4, amended, at a payload with \<open>id\<close> and \<open>createdBy\<close>.\<close>

theorem C4_server_fields_stripped_witness:
  "parse insertIssueSchema
     (JObj [(''id'', JStr ''123e4567-e89b-42d3-a456-426614174000''),
            (''createdBy'', JStr ''mallory''),
            (''title'', JStr ''Crash on save''), (''type'', JStr ''issue''),
            (''description'', JStr ''It crashes''), (''impact'', JStr ''High''),
            (''status'', JStr ''open'')])
   = Inr [(''title'', JStr ''Crash on save''), (''type'', JStr ''issue''),
          (''description'', JStr ''It crashes''), (''impact'', JStr ''High''),
          (''status'', JStr ''open'')]
   \<and> ''id'' \<notin> set (keys [(''title'', JStr ''Crash on save''),
       (''type'', JStr ''issue''),
          (''description'', JStr ''It crashes''), (''impact'', JStr ''High''),
          (''status'', JStr ''open'')])
   \<and> ''createdBy'' \<notin> set (keys [(''title'', JStr ''Crash on save''),
       (''type'', JStr ''issue''),
          (''description'', JStr ''It crashes''), (''impact'', JStr ''High''),
          (''status'', JStr ''open'')])"
  (is "?h \<and> ?c1 \<and> ?c2")
proof -
  have h: ?h
    by (simp add: insertIssueSchema_shape fieldIssues_def parseField_def strip_def getProp_def)
  from C4_server_fields_stripped [THEN conjunct2, THEN mp, OF h]
  have ?c1 and ?c2 by blast+
  with h show ?thesis by blast
qed

lemma fieldIssues_title_description:
  "asString (getProp kvs ''title'') = None \<or> asString (getProp kvs ''description'') = None
    \<Longrightarrow> fieldIssues insertIssueSchema kvs \<noteq> []"
  unfolding fieldIssues_insert_empty_iff parseBase_string_None_iff by auto

lemma strip_insert_title_description:
  "getProp kvs ''title'' = JStr t \<Longrightarrow> getProp kvs ''description''
      = JStr d \<Longrightarrow>
    getProp (strip insertIssueSchema kvs) ''title'' = JStr t
    \<and> getProp (strip insertIssueSchema kvs) ''description'' = JStr d"
  by (simp add: insertIssueSchema_shape strip_def getProp_def)

text \<open>
  C5 fails as stated: a creation payload whose \<open>title\<close> and \<open>description\<close> are the
  empty string passes \<open>insertIssueSchema.parse\<close>. A \<open>text\<close> column that is
  \<open>notNull()\<close> gives \<open>z.string()\<close>, with no minimum length.
\<close>

theorem C5_empty_title_counterexample:
  "parse insertIssueSchema
     (JObj [(''title'', JStr ''''), (''type'', JStr ''issue''),
            (''description'', JStr ''''), (''impact'', JStr ''High''),
            (''status'', JStr ''open'')])
   = Inr [(''title'', JStr ''''), (''type'', JStr ''issue''),
          (''description'', JStr ''''), (''impact'', JStr ''High''),
          (''status'', JStr ''open'')]"
  by (simp add: insertIssueSchema_shape fieldIssues_def parseField_def strip_def getProp_def)

text \<open>
  C5, amended: a creation payload in which \<open>title\<close> or \<open>description\<close> is missing or
  is not a string is answered 400 by the POST handler and changes nothing; a payload in
  which both are strings, empty or not, and the other fields are valid passes validation
  with the two strings as they came.
\<close>

theorem C5_title_description_strings:
  "(body req = JObj kvs
        \<and> (asString (getProp kvs ''title'')
            = None \<or> asString (getProp kvs ''description'') = None)
      \<longrightarrow> statusCode (fst (postIssueHandler e userId req w)) = 400
          \<and> snd (postIssueHandler e userId req w) = w)
   \<and> (getProp kvs ''title'' = JStr t \<and> getProp kvs ''description'' = JStr d
        \<and> getProp kvs ''type'' = JStr ty \<and> length ty \<le> 50
        \<and> getProp kvs ''impact'' = JStr im \<and> length im \<le> 20
        \<and> getProp kvs ''status'' = JStr st \<and> length st \<le> 20
        \<and> isUndefined (getProp kvs ''expectedFixDate'')
      \<longrightarrow> (\<exists>data. parse insertIssueSchema (JObj kvs) = Inr data
            \<and> getProp data ''title'' = JStr t \<and> getProp data ''description'' = JStr d))"
proof (intro conjI impI)
  assume h: "body req = JObj kvs
        \<and> (asString (getProp kvs ''title'')
            = None \<or> asString (getProp kvs ''description'') = None)"
  then have "fieldIssues insertIssueSchema kvs \<noteq> []"
    using fieldIssues_title_description by blast
  with h show "statusCode (fst (postIssueHandler e userId req w)) = 400"
    and "snd (postIssueHandler e userId req w) = w"
    by (simp_all add: postIssueHandler_invalid respond_def)
next
  assume h: "getProp kvs ''title'' = JStr t \<and> getProp kvs ''description'' = JStr d
        \<and> getProp kvs ''type'' = JStr ty \<and> length ty \<le> 50
        \<and> getProp kvs ''impact'' = JStr im \<and> length im \<le> 20
        \<and> getProp kvs ''status'' = JStr st \<and> length st \<le> 20
        \<and> isUndefined (getProp kvs ''expectedFixDate'')"
  then have "fieldIssues insertIssueSchema kvs = []"
    unfolding fieldIssues_insert_empty_iff by simp
  then have "parse insertIssueSchema (JObj kvs) = Inr (strip insertIssueSchema kvs)"
    by simp
  with h strip_insert_title_description [of kvs t d]
  show "\<exists>data. parse insertIssueSchema (JObj kvs) = Inr data
            \<and> getProp data ''title'' = JStr t \<and> getProp data ''description'' = JStr d"
    by blast
qed

text \<open>
  C5, amended, at two payloads: the one without \<open>title\<close> is answered 400; the one
  with an empty \<open>title\<close> and an empty \<open>description\<close> passes validation.
\<close>

theorem C5_title_description_strings_witness:
  "(asString (getProp [(''type'', JStr ''issue''), (''description'', JStr ''It crashes''),
        (''impact'', JStr ''High''), (''status'', JStr ''open'')] ''title'') = None
    \<and> statusCode (fst (postIssueHandler
        \<lparr>now = 10, randomUuid = ''123e4567-e89b-42d3-a456-426614174000'', sheetsOk
            = True\<rparr>
        ''u1''
        \<lparr>route = PostIssues, cookie = Some ''s1'', paramsId = [], queryStatus = None,
          queryType = None, querySearch = None,
          body = JObj [(''type'', JStr ''issue''), (''description'', JStr ''It crashes''),
                       (''impact'', JStr ''High''), (''status'', JStr ''open'')]\<rparr>
        \<lparr>issuesTable = [], usersTable = [], sessionsTable = [],
          sheet = [], console = [], calls = []\<rparr>)) = 400)
   \<and> (isUndefined (getProp [(''title'', JStr ''''), (''type'', JStr ''issue''),
               (''description'', JStr ''''), (''impact'', JStr ''High''),
               (''status'', JStr ''open'')] ''expectedFixDate'')
    \<and> (\<exists>data. parse insertIssueSchema
          (JObj [(''title'', JStr ''''), (''type'', JStr ''issue''),
               (''description'', JStr ''''), (''impact'', JStr ''High''),
               (''status'', JStr ''open'')]) = Inr data
          \<and> getProp data ''title'' = JStr '''' \<and> getProp data ''description''
              = JStr ''''))"
  (is "(?h1 \<and> ?c1) \<and> (?h2 \<and> ?c2)")
proof -
  let ?e = "\<lparr>now = 10, randomUuid = ''123e4567-e89b-42d3-a456-426614174000'', sheetsOk
      = True\<rparr>"
  let ?w = "\<lparr>issuesTable = [], usersTable = [], sessionsTable = [],
          sheet = [], console = [], calls = []\<rparr>"
  let ?k1 = "[(''type'', JStr ''issue''), (''description'', JStr ''It crashes''),
                       (''impact'', JStr ''High''), (''status'', JStr ''open'')]"
  let ?k2 = "[(''title'', JStr ''''), (''type'', JStr ''issue''),
               (''description'', JStr ''''), (''impact'', JStr ''High''),
               (''status'', JStr ''open'')]"
  let ?r1 = "\<lparr>route = PostIssues, cookie = Some ''s1'', paramsId = [], queryStatus = None,
          queryType = None, querySearch = None, body = JObj ?k1\<rparr>"
  have h1: ?h1 by (simp add: getProp_def)
  have b1: "body ?r1 = JObj ?k1" by simp
  from C5_title_description_strings [of ?r1 ?k1 ?e "''u1''" ?w, THEN conjunct1] b1 h1
  have c1: ?c1 by blast
  have h2: ?h2 by (simp add: getProp_def)
  have g: "getProp ?k2 ''title'' = JStr '''' \<and> getProp ?k2 ''description'' = JStr ''''
        \<and> getProp ?k2 ''type'' = JStr ''issue'' \<and> length ''issue'' \<le> 50
        \<and> getProp ?k2 ''impact'' = JStr ''High'' \<and> length ''High'' \<le> 20
        \<and> getProp ?k2 ''status'' = JStr ''open'' \<and> length ''open'' \<le> 20
        \<and> isUndefined (getProp ?k2 ''expectedFixDate'')"
    by (simp add: getProp_def)
  from C5_title_description_strings [THEN conjunct2, THEN mp, OF g]
  have c2: ?c2 .
  from h1 c1 h2 c2 show ?thesis by blast
qed

section \<open>The public routes\<close>

lemma publicIssue_keys:
  "\<exists>kvs. publicIssue issue = JObj kvs
     \<and> keys kvs = [''id'', ''title'', ''type'', ''description'', ''impact'', ''status'',
                   ''expectedFixDate'', ''createdAt'', ''updatedAt'']"
  by (simp add: publicIssue_def keys_def)

lemma getIssuesHandler_response:
  "fst (getIssuesHandler req w) =
    respond 200 (JArr (map publicIssue
      (filter (matches \<lparr>filterStatus = queryStatus req, filterType = queryType req,
                         filterSearch = querySearch req\<rparr>) (issuesTable w))))"
  by (simp add: getIssuesHandler_def getAllIssues_def)

lemma getIssueHandler_response:
  "fst (getIssueHandler req w) =
    (case find (\<lambda>r. id_col r = paramsId req) (issuesTable w) of
       None \<Rightarrow> respond 404 (message ''Issue not found'')
     | Some issue \<Rightarrow> respond 200 (publicIssue issue))"
  by (simp add: getIssueHandler_def getIssue_def split: option.splits)

text \<open>
  C6: for every request and every world, the answer of \<open>GET /api/issues\<close> is 200 with
  an array of objects, and the answer of \<open>GET /api/issues/:id\<close> is either 404 with a
  message or 200 with one object; each of these objects has exactly the keys \<open>id\<close>,
  \<open>title\<close>, \<open>type\<close>, \<open>description\<close>, \<open>impact\<close>,
      \<open>status\<close>,
  \<open>expectedFixDate\<close>, \<open>createdAt\<close>, \<open>updatedAt\<close>,
      and so neither \<open>createdBy\<close> nor
  \<open>updatedBy\<close>.
\<close>

theorem C6_public_routes_redacted:
  "(route req = GetIssues \<longrightarrow>
      (\<exists>objs. fst (handle e req w) = respond 200 (JArr objs)
         \<and> (\<forall>obj \<in> set objs. \<exists>kvs. obj = JObj kvs
               \<and> keys kvs = [''id'', ''title'', ''type'', ''description'', ''impact'',
                   ''status'',
                             ''expectedFixDate'', ''createdAt'', ''updatedAt'']
               \<and> ''createdBy'' \<notin> set (keys kvs) \<and> ''updatedBy'' \<notin> set
                   (keys kvs))))
   \<and> (route req = GetIssueById \<longrightarrow>
      fst (handle e req w) = respond 404 (message ''Issue not found'')
      \<or> (\<exists>kvs. fst (handle e req w) = respond 200 (JObj kvs)
            \<and> keys kvs = [''id'', ''title'', ''type'', ''description'', ''impact'', ''status'',
                          ''expectedFixDate'', ''createdAt'', ''updatedAt'']
            \<and> ''createdBy'' \<notin> set (keys kvs) \<and> ''updatedBy'' \<notin> set
                (keys kvs)))"
proof (intro conjI impI)
  assume r: "route req = GetIssues"
  let ?found = "filter (matches \<lparr>filterStatus = queryStatus req, filterType = queryType req,
                         filterSearch = querySearch req\<rparr>) (issuesTable w)"
  have "fst (handle e req w) = respond 200 (JArr (map publicIssue ?found))"
    using r by (simp add: handle_def getIssuesHandler_response)
  moreover have "\<forall>obj \<in> set (map publicIssue ?found). \<exists>kvs. obj = JObj kvs
               \<and> keys kvs = [''id'', ''title'', ''type'', ''description'', ''impact'',
                   ''status'',
                             ''expectedFixDate'', ''createdAt'', ''updatedAt'']
               \<and> ''createdBy'' \<notin> set (keys kvs) \<and> ''updatedBy'' \<notin> set
                   (keys kvs)"
  proof
    fix obj
    assume "obj \<in> set (map publicIssue ?found)"
    then obtain issue where "obj = publicIssue issue" by auto
    with publicIssue_keys [of issue] obtain kvs where "obj = JObj kvs"
      and k: "keys kvs = [''id'', ''title'', ''type'', ''description'', ''impact'', ''status'',
                   ''expectedFixDate'', ''createdAt'', ''updatedAt'']"
      by auto
    moreover from k have "''createdBy'' \<notin> set (keys kvs)" and "''updatedBy'' \<notin> set
        (keys kvs)"
      by simp_all
    ultimately show "\<exists>kvs. obj = JObj kvs
               \<and> keys kvs = [''id'', ''title'', ''type'', ''description'', ''impact'',
                   ''status'',
                             ''expectedFixDate'', ''createdAt'', ''updatedAt'']
               \<and> ''createdBy'' \<notin> set (keys kvs) \<and> ''updatedBy'' \<notin> set
                   (keys kvs)"
      by blast
  qed
  ultimately show "\<exists>objs. fst (handle e req w) = respond 200 (JArr objs)
         \<and> (\<forall>obj \<in> set objs. \<exists>kvs. obj = JObj kvs
               \<and> keys kvs = [''id'', ''title'', ''type'', ''description'', ''impact'',
                   ''status'',
                             ''expectedFixDate'', ''createdAt'', ''updatedAt'']
               \<and> ''createdBy'' \<notin> set (keys kvs) \<and> ''updatedBy'' \<notin> set
                   (keys kvs))"
    by blast
next
  assume r: "route req = GetIssueById"
  show "fst (handle e req w) = respond 404 (message ''Issue not found'')
      \<or> (\<exists>kvs. fst (handle e req w) = respond 200 (JObj kvs)
            \<and> keys kvs = [''id'', ''title'', ''type'', ''description'', ''impact'', ''status'',
                          ''expectedFixDate'', ''createdAt'', ''updatedAt'']
            \<and> ''createdBy'' \<notin> set (keys kvs) \<and> ''updatedBy'' \<notin> set
                (keys kvs))"
  proof (cases "find (\<lambda>r. id_col r = paramsId req) (issuesTable w)")
    case None
    with r show ?thesis by (simp add: handle_def getIssueHandler_response)
  next
    case (Some issue)
    with r have h: "fst (handle e req w) = respond 200 (publicIssue issue)"
      by (simp add: handle_def getIssueHandler_response)
    from publicIssue_keys [of issue] obtain kvs where p: "publicIssue issue = JObj kvs"
      and k: "keys kvs = [''id'', ''title'', ''type'', ''description'', ''impact'', ''status'',
                   ''expectedFixDate'', ''createdAt'', ''updatedAt'']"
      by auto
    from k have "''createdBy'' \<notin> set (keys kvs)" and "''updatedBy'' \<notin> set (keys kvs)"
      by simp_all
    with h p k show ?thesis by auto
  qed
qed

text \<open>
  C6, at a world with one issue whose \<open>createdBy\<close> and \<open>updatedBy\<close> are set: the list
  route and the route by id answer with the nine public keys.
\<close>

theorem C6_public_routes_redacted_witness:
  "(route \<lparr>route = GetIssues, cookie = None, paramsId = [], queryStatus = Some ''open'',
            queryType = None, querySearch = Some ''CRASH'', body = JUndefined\<rparr> = GetIssues
    \<and> fst (handle \<lparr>now = 20, randomUuid = [], sheetsOk = True\<rparr>
         \<lparr>route = GetIssues, cookie = None, paramsId = [], queryStatus = Some ''open'',
           queryType = None, querySearch = Some ''CRASH'', body = JUndefined\<rparr>
         \<lparr>issuesTable =
            [\<lparr>id_col = ''123e4567-e89b-42d3-a456-426614174000'', title = ''Crash on save'',
              type_col = ''issue'', description = ''It crashes'', impact = ''High'',
              status = ''open'', expectedFixDate = None, createdBy = Some ''u1'',
              updatedBy = Some ''u2'', createdAt = Some 5, updatedAt = Some 7\<rparr>],
           usersTable = [], sessionsTable = [], sheet = [], console = [], calls = []\<rparr>)
      = respond 200 (JArr [JObj
          [(''id'', JStr ''123e4567-e89b-42d3-a456-426614174000''),
           (''title'', JStr ''Crash on save''), (''type'', JStr ''issue''),
           (''description'', JStr ''It crashes''), (''impact'', JStr ''High''),
           (''status'', JStr ''open''), (''expectedFixDate'', JNull),
           (''createdAt'', JDate 5), (''updatedAt'', JDate 7)]])
    \<and> ''createdBy'' \<notin> set (keys
          [(''id'', JStr ''123e4567-e89b-42d3-a456-426614174000''),
           (''title'', JStr ''Crash on save''), (''type'', JStr ''issue''),
           (''description'', JStr ''It crashes''), (''impact'', JStr ''High''),
           (''status'', JStr ''open''), (''expectedFixDate'', JNull),
           (''createdAt'', JDate 5), (''updatedAt'', JDate 7)]))
   \<and> (route \<lparr>route = GetIssueById, cookie = None,
            paramsId = ''123e4567-e89b-42d3-a456-426614174000'', queryStatus = None,
            queryType = None, querySearch = None, body = JUndefined\<rparr> = GetIssueById
    \<and> fst (handle \<lparr>now = 20, randomUuid = [], sheetsOk = True\<rparr>
         \<lparr>route = GetIssueById, cookie = None,
           paramsId = ''123e4567-e89b-42d3-a456-426614174000'', queryStatus = None,
           queryType = None, querySearch = None, body = JUndefined\<rparr>
         \<lparr>issuesTable =
            [\<lparr>id_col = ''123e4567-e89b-42d3-a456-426614174000'', title = ''Crash on save'',
              type_col = ''issue'', description = ''It crashes'', impact = ''High'',
              status = ''open'', expectedFixDate = None, createdBy = Some ''u1'',
              updatedBy = Some ''u2'', createdAt = Some 5, updatedAt = Some 7\<rparr>],
           usersTable = [], sessionsTable = [], sheet = [], console = [], calls = []\<rparr>)
      = respond 200 (JObj
          [(''id'', JStr ''123e4567-e89b-42d3-a456-426614174000''),
           (''title'', JStr ''Crash on save''), (''type'', JStr ''issue''),
           (''description'', JStr ''It crashes''), (''impact'', JStr ''High''),
           (''status'', JStr ''open''), (''expectedFixDate'', JNull),
           (''createdAt'', JDate 5), (''updatedAt'', JDate 7)])
    \<and> ''updatedBy'' \<notin> set (keys
          [(''id'', JStr ''123e4567-e89b-42d3-a456-426614174000''),
           (''title'', JStr ''Crash on save''), (''type'', JStr ''issue''),
           (''description'', JStr ''It crashes''), (''impact'', JStr ''High''),
           (''status'', JStr ''open''), (''expectedFixDate'', JNull),
           (''createdAt'', JDate 5), (''updatedAt'', JDate 7)]))"
  (is "(?h1 \<and> ?v1 \<and> ?c1) \<and> (?h2 \<and> ?v2 \<and> ?c2)")
proof -
  let ?e = "\<lparr>now = 20, randomUuid = [], sheetsOk = True\<rparr>"
  let ?r1 = "\<lparr>route = GetIssues, cookie = None, paramsId = [], queryStatus = Some ''open'',
           queryType = None, querySearch = Some ''CRASH'', body = JUndefined\<rparr>"
  let ?r2 = "\<lparr>route = GetIssueById, cookie = None,
           paramsId = ''123e4567-e89b-42d3-a456-426614174000'', queryStatus = None,
           queryType = None, querySearch = None, body = JUndefined\<rparr>"
  let ?w = "\<lparr>issuesTable =
            [\<lparr>id_col = ''123e4567-e89b-42d3-a456-426614174000'', title = ''Crash on save'',
              type_col = ''issue'', description = ''It crashes'', impact = ''High'',
              status = ''open'', expectedFixDate = None, createdBy = Some ''u1'',
              updatedBy = Some ''u2'', createdAt = Some 5, updatedAt = Some 7\<rparr>],
           usersTable = [], sessionsTable = [], sheet = [], console = [], calls = []\<rparr>"
  let ?kvs = "[(''id'', JStr ''123e4567-e89b-42d3-a456-426614174000''),
           (''title'', JStr ''Crash on save''), (''type'', JStr ''issue''),
           (''description'', JStr ''It crashes''), (''impact'', JStr ''High''),
           (''status'', JStr ''open''), (''expectedFixDate'', JNull),
           (''createdAt'', JDate 5), (''updatedAt'', JDate 7)]"
  have h1: ?h1 and h2: ?h2 by simp_all
  have v1: ?v1
    by (simp add: handle_def getIssuesHandler_response matches_def toLower_def publicIssue_def
        dateJson_def)
  have v2: ?v2
    by (simp add: handle_def getIssueHandler_response publicIssue_def dateJson_def)
  from C6_public_routes_redacted [of ?r1 ?e ?w, THEN conjunct1, THEN mp, OF h1]
  obtain objs where o: "fst (handle ?e ?r1 ?w) = respond 200 (JArr objs)"
    and a: "\<forall>obj \<in> set objs. \<exists>kvs. obj
        = JObj kvs \<and> ''createdBy'' \<notin> set (keys kvs)"
    by blast
  from o v1 have "objs = [JObj ?kvs]" by (simp add: respond_def)
  with a have c1: ?c1 by simp
  from C6_public_routes_redacted [of ?r2 ?e ?w, THEN conjunct2, THEN mp, OF h2] v2
  obtain kvs where "respond 200 (JObj ?kvs) = respond 200 (JObj kvs)"
    and "''updatedBy'' \<notin> set (keys kvs)"
    by (auto simp: respond_def message_def)
  then have c2: ?c2 by (simp add: respond_def)
  from h1 v1 c1 h2 v2 c2 show ?thesis by blast
qed

section \<open>The protected routes\<close>

lemma withAuth_rejected:
  "isAuthenticated e w req = None \<Longrightarrow>
    withAuth e req w handler = (respond 401 (message ''Unauthorized''), w)"
  by (simp add: withAuth_def)

lemma isAuthenticated_None:
  "cookie req = None
    \<or> (\<exists>sid. cookie req = Some sid \<and> map_of (sessionsTable w) sid = None)
    \<or> (\<exists>sid s. cookie req = Some sid \<and> map_of (sessionsTable w) sid = Some s
          \<and> expire s < now e)
   \<Longrightarrow> isAuthenticated e w req = None"
  by (auto simp: isAuthenticated_def)

text \<open>
  C9: a request to \<open>GET /api/auth/user\<close>, \<open>POST /api/issues\<close>,
      \<open>PUT /api/issues/:id\<close>
  or \<open>DELETE /api/issues/:id\<close> whose session is missing (no cookie), invalid (no such
  session) or expired is answered 401 and leaves the world as it was, the list of calls
  to the Record Store and to the Mirror Sync included: none ran. The two public routes
  do not look at the session: their result is the same whatever the cookie.
\<close>

theorem C9_auth_gate_short_circuits:
  "(route req \<in> {GetAuthUser, PostIssues, PutIssueById, DeleteIssueById}
      \<and> (cookie req = None
          \<or> (\<exists>sid. cookie req = Some sid \<and> map_of (sessionsTable w) sid = None)
          \<or> (\<exists>sid s. cookie req = Some sid \<and> map_of (sessionsTable w) sid = Some s
                \<and> expire s < now e))
    \<longrightarrow> handle e req w = (respond 401 (message ''Unauthorized''), w))
   \<and> (route req \<in> {GetIssues, GetIssueById}
    \<longrightarrow> handle e (req\<lparr>cookie := c\<rparr>) w = handle e req w)"
proof (intro conjI impI)
  assume h: "route req \<in> {GetAuthUser, PostIssues, PutIssueById, DeleteIssueById}
      \<and> (cookie req = None
          \<or> (\<exists>sid. cookie req = Some sid \<and> map_of (sessionsTable w) sid = None)
          \<or> (\<exists>sid s. cookie req = Some sid \<and> map_of (sessionsTable w) sid = Some s
                \<and> expire s < now e))"
  then have "isAuthenticated e w req = None"
    using isAuthenticated_None [of req w e] by blast
  then have "\<And>handler. withAuth e req w handler = (respond 401 (message ''Unauthorized''), w)"
    by (rule withAuth_rejected)
  with h show "handle e req w = (respond 401 (message ''Unauthorized''), w)"
    by (auto simp: handle_def)
next
  assume "route req \<in> {GetIssues, GetIssueById}"
  then show "handle e (req\<lparr>cookie := c\<rparr>) w = handle e req w"
    by (auto simp: handle_def getIssuesHandler_def getIssueHandler_def)
qed

text \<open>
  C9, at a \<open>DELETE\<close> of an existing issue with an expired session, and at a
  \<open>GET /api/issues/:id\<close> with and without a cookie.
\<close>

theorem C9_auth_gate_short_circuits_witness:
  "(route (\<lparr>route = DeleteIssueById, cookie = Some ''s1'',
           paramsId = ''123e4567-e89b-42d3-a456-426614174000'', queryStatus = None,
           queryType = None, querySearch = None, body
               = JUndefined\<rparr>) \<in> {GetAuthUser, PostIssues, PutIssueById, DeleteIssueById}
    \<and> cookie (\<lparr>route = DeleteIssueById, cookie = Some ''s1'',
           paramsId = ''123e4567-e89b-42d3-a456-426614174000'', queryStatus = None,
           queryType = None, querySearch = None, body = JUndefined\<rparr>) = Some ''s1''
    \<and> map_of (sessionsTable (\<lparr>issuesTable =
            [\<lparr>id_col = ''123e4567-e89b-42d3-a456-426614174000'', title = ''Crash on save'',
              type_col = ''issue'', description = ''It crashes'', impact = ''High'',
              status = ''open'', expectedFixDate = None, createdBy = Some ''u1'',
              updatedBy = Some ''u1'', createdAt = Some 5, updatedAt = Some 5\<rparr>],
           usersTable = [], sessionsTable = [(''s1'', \<lparr>sub = ''u1'', expire = 100\<rparr>)],
           sheet = [], console = [], calls = []\<rparr>)) ''s1'' = Some \<lparr>sub
               = ''u1'', expire = 100\<rparr>
    \<and> expire \<lparr>sub = ''u1'', expire = 100\<rparr> < now
        (\<lparr>now = 200, randomUuid = [], sheetsOk = True\<rparr>)
    \<and> handle
        (\<lparr>now = 200, randomUuid = [], sheetsOk = True\<rparr>)
        (\<lparr>route = DeleteIssueById, cookie = Some ''s1'',
           paramsId = ''123e4567-e89b-42d3-a456-426614174000'', queryStatus = None,
           queryType = None, querySearch = None, body = JUndefined\<rparr>) (\<lparr>issuesTable =
            [\<lparr>id_col = ''123e4567-e89b-42d3-a456-426614174000'', title = ''Crash on save'',
              type_col = ''issue'', description = ''It crashes'', impact = ''High'',
              status = ''open'', expectedFixDate = None, createdBy = Some ''u1'',
              updatedBy = Some ''u1'', createdAt = Some 5, updatedAt = Some 5\<rparr>],
           usersTable = [], sessionsTable = [(''s1'', \<lparr>sub = ''u1'', expire = 100\<rparr>)],
           sheet = [], console = [], calls = []\<rparr>) = (respond 401 (message ''Unauthorized''),
               (\<lparr>issuesTable =
            [\<lparr>id_col = ''123e4567-e89b-42d3-a456-426614174000'', title = ''Crash on save'',
              type_col = ''issue'', description = ''It crashes'', impact = ''High'',
              status = ''open'', expectedFixDate = None, createdBy = Some ''u1'',
              updatedBy = Some ''u1'', createdAt = Some 5, updatedAt = Some 5\<rparr>],
           usersTable = [], sessionsTable = [(''s1'', \<lparr>sub = ''u1'', expire = 100\<rparr>)],
           sheet = [], console = [], calls = []\<rparr>)))
   \<and> (route (\<lparr>route = GetIssueById, cookie = None,
           paramsId = ''123e4567-e89b-42d3-a456-426614174000'', queryStatus = None,
           queryType = None, querySearch = None, body
               = JUndefined\<rparr>) \<in> {GetIssues, GetIssueById}
    \<and> handle
        (\<lparr>now = 200, randomUuid = [], sheetsOk = True\<rparr>) ((\<lparr>route
            = GetIssueById, cookie = None,
           paramsId = ''123e4567-e89b-42d3-a456-426614174000'', queryStatus = None,
           queryType = None, querySearch = None, body
               = JUndefined\<rparr>)\<lparr>cookie := Some ''s1''\<rparr>)
               (\<lparr>issuesTable =
            [\<lparr>id_col = ''123e4567-e89b-42d3-a456-426614174000'', title = ''Crash on save'',
              type_col = ''issue'', description = ''It crashes'', impact = ''High'',
              status = ''open'', expectedFixDate = None, createdBy = Some ''u1'',
              updatedBy = Some ''u1'', createdAt = Some 5, updatedAt = Some 5\<rparr>],
           usersTable = [], sessionsTable = [(''s1'', \<lparr>sub = ''u1'', expire = 100\<rparr>)],
           sheet = [], console = [], calls = []\<rparr>) = handle
               (\<lparr>now = 200, randomUuid = [], sheetsOk = True\<rparr>)
               (\<lparr>route = GetIssueById, cookie = None,
           paramsId = ''123e4567-e89b-42d3-a456-426614174000'', queryStatus = None,
           queryType = None, querySearch = None, body = JUndefined\<rparr>) (\<lparr>issuesTable =
            [\<lparr>id_col = ''123e4567-e89b-42d3-a456-426614174000'', title = ''Crash on save'',
              type_col = ''issue'', description = ''It crashes'', impact = ''High'',
              status = ''open'', expectedFixDate = None, createdBy = Some ''u1'',
              updatedBy = Some ''u1'', createdAt = Some 5, updatedAt = Some 5\<rparr>],
           usersTable = [], sessionsTable = [(''s1'', \<lparr>sub = ''u1'', expire = 100\<rparr>)],
           sheet = [], console = [], calls = []\<rparr>))"
  (is "(?h1 \<and> ?h2 \<and> ?h3 \<and> ?h4 \<and> ?c1) \<and> (?h5 \<and> ?c2)")
proof -
  have h1: ?h1 and h2: ?h2 and h3: ?h3 and h4: ?h4 and h5: ?h5 by simp_all
  from h2 h3 h4
  have "\<exists>sid s. cookie (\<lparr>route = DeleteIssueById, cookie = Some ''s1'',
           paramsId = ''123e4567-e89b-42d3-a456-426614174000'', queryStatus = None,
           queryType = None, querySearch = None, body = JUndefined\<rparr>)
               = Some sid \<and> map_of (sessionsTable
               (\<lparr>issuesTable =
            [\<lparr>id_col = ''123e4567-e89b-42d3-a456-426614174000'', title = ''Crash on save'',
              type_col = ''issue'', description = ''It crashes'', impact = ''High'',
              status = ''open'', expectedFixDate = None, createdBy = Some ''u1'',
              updatedBy = Some ''u1'', createdAt = Some 5, updatedAt = Some 5\<rparr>],
           usersTable = [], sessionsTable = [(''s1'', \<lparr>sub = ''u1'', expire = 100\<rparr>)],
           sheet = [], console = [], calls = []\<rparr>)) sid = Some s
          \<and> expire s < now (\<lparr>now = 200, randomUuid = [], sheetsOk = True\<rparr>)"
    by blast
  with C9_auth_gate_short_circuits [of "(\<lparr>route = DeleteIssueById, cookie = Some ''s1'',
           paramsId = ''123e4567-e89b-42d3-a456-426614174000'', queryStatus = None,
           queryType = None, querySearch = None, body = JUndefined\<rparr>)" "(\<lparr>issuesTable =
            [\<lparr>id_col = ''123e4567-e89b-42d3-a456-426614174000'', title = ''Crash on save'',
              type_col = ''issue'', description = ''It crashes'', impact = ''High'',
              status = ''open'', expectedFixDate = None, createdBy = Some ''u1'',
              updatedBy = Some ''u1'', createdAt = Some 5, updatedAt = Some 5\<rparr>],
           usersTable = [], sessionsTable = [(''s1'', \<lparr>sub = ''u1'', expire = 100\<rparr>)],
           sheet = [], console = [], calls = []\<rparr>)"
               "(\<lparr>now = 200, randomUuid = [], sheetsOk = True\<rparr>)", THEN conjunct1] h1
  have c1: ?c1 by blast
  from C9_auth_gate_short_circuits [of "(\<lparr>route = GetIssueById, cookie = None,
           paramsId = ''123e4567-e89b-42d3-a456-426614174000'', queryStatus = None,
           queryType = None, querySearch = None, body = JUndefined\<rparr>)" "(\<lparr>issuesTable =
            [\<lparr>id_col = ''123e4567-e89b-42d3-a456-426614174000'', title = ''Crash on save'',
              type_col = ''issue'', description = ''It crashes'', impact = ''High'',
              status = ''open'', expectedFixDate = None, createdBy = Some ''u1'',
              updatedBy = Some ''u1'', createdAt = Some 5, updatedAt = Some 5\<rparr>],
           usersTable = [], sessionsTable = [(''s1'', \<lparr>sub = ''u1'', expire = 100\<rparr>)],
           sheet = [], console = [], calls = []\<rparr>)"
               "(\<lparr>now = 200, randomUuid = [], sheetsOk
                   = True\<rparr>)" "Some ''s1''", THEN conjunct2, THEN mp, OF h5]
  have c2: ?c2 .
  from h1 h2 h3 h4 c1 h5 c2 show ?thesis by blast
qed

lemma find_SomeD: "find P xs = Some x \<Longrightarrow> x \<in> set xs \<and> P x"
  by (induction xs) (auto split: if_splits)

lemma find_id_None: "(find (\<lambda>r. id_col r = i) rows = None) = (i \<notin> set (ids rows))"
  by (induction rows) (auto simp: ids_def)

lemma deleteIssueHandler_absent:
  "find (\<lambda>r. id_col r = paramsId req) (issuesTable w) = None \<Longrightarrow>
    deleteIssueHandler e req w =
      (respond 404 (message ''Issue not found''), called (CallGetIssue (paramsId req)) w)"
  by (simp add: deleteIssueHandler_eq getIssue_def)

lemma deleteIssueHandler_present:
  assumes "find (\<lambda>r. id_col r = paramsId req) (issuesTable w) = Some issue"
  shows "deleteIssueHandler e req w =
      (respond 204 JUndefined,
       snd (syncIssueToSheets e issue Delete
         (snd (deleteIssue (paramsId req) (called (CallGetIssue (paramsId req)) w)))))"
proof -
  have "paramsId req \<in> set (ids (issuesTable w))"
    using assms find_id_None [of "paramsId req" "issuesTable w"] by simp
  with assms show ?thesis
    by (simp add: deleteIssueHandler_eq getIssue_def deleteIssue_def called_def
        syncIssueToSheets_def split: sum.splits)
qed

text \<open>
  C10: the \<open>DELETE\<close> handler, when no issue has the id, answers 404 after the one read
  and changes nothing else; otherwise it reads the issue, deletes it from the store,
  calls the Mirror Sync with the record it read and \<open>delete\<close>, in this order, and
  answers 204 with an empty body; the store then has no issue with the id, and the
  mirror has no row for it when the spreadsheet service answers.
\<close>

theorem C10_delete_issue:
  "(paramsId req \<notin> set (ids (issuesTable w)) \<longrightarrow>
      deleteIssueHandler e req w =
        (respond 404 (message ''Issue not found''),
         w\<lparr>calls := calls w @ [CallGetIssue (paramsId req)]\<rparr>))
   \<and> (paramsId req \<in> set (ids (issuesTable w)) \<longrightarrow>
      (\<exists>issue. find (\<lambda>r. id_col r = paramsId req) (issuesTable w) = Some issue
         \<and> issue \<in> set (issuesTable w) \<and> id_col issue = paramsId req
         \<and> fst (deleteIssueHandler e req w) = respond 204 JUndefined
         \<and> issuesTable (snd (deleteIssueHandler e req w)) =
             filter (\<lambda>r. id_col r \<noteq> paramsId req) (issuesTable w)
         \<and> paramsId req \<notin> set (ids (issuesTable (snd (deleteIssueHandler e req w))))
         \<and> calls (snd (deleteIssueHandler e req w)) =
             calls w @ [CallGetIssue (paramsId req), CallDeleteIssue (paramsId req),
                        CallSyncIssue issue Delete]
         \<and> (sheetsOk e \<longrightarrow> sheet (snd (deleteIssueHandler e req w)) =
               AList.delete (paramsId req) (sheet w))))"
proof (intro conjI impI)
  assume "paramsId req \<notin> set (ids (issuesTable w))"
  then have "find (\<lambda>r. id_col r = paramsId req) (issuesTable w) = None"
    by (simp add: find_id_None)
  then show "deleteIssueHandler e req w =
        (respond 404 (message ''Issue not found''),
         w\<lparr>calls := calls w @ [CallGetIssue (paramsId req)]\<rparr>)"
    by (simp add: deleteIssueHandler_absent called_def)
next
  assume "paramsId req \<in> set (ids (issuesTable w))"
  then obtain issue where f: "find (\<lambda>r. id_col r = paramsId req) (issuesTable w)
      = Some issue"
    using find_id_None [of "paramsId req" "issuesTable w"] by auto
  then have m: "issue \<in> set (issuesTable w)" and i: "id_col issue = paramsId req"
    using find_SomeD [OF f] by simp_all
  note d = deleteIssueHandler_present [OF f, of e]
  have r: "fst (deleteIssueHandler e req w) = respond 204 JUndefined"
    by (simp add: d)
  have t: "issuesTable (snd (deleteIssueHandler e req w)) =
             filter (\<lambda>r. id_col r \<noteq> paramsId req) (issuesTable w)"
    by (simp add: d syncIssueToSheets_def deleteIssue_def called_def consoleError_def
        split: sum.splits)
  have n: "paramsId req \<notin> set (ids (issuesTable (snd (deleteIssueHandler e req w))))"
    unfolding t by (auto simp: ids_def)
  have c: "calls (snd (deleteIssueHandler e req w)) =
             calls w @ [CallGetIssue (paramsId req), CallDeleteIssue (paramsId req),
                        CallSyncIssue issue Delete]"
    by (simp add: d syncIssueToSheets_def deleteIssue_def called_def consoleError_def
        split: sum.splits)
  have s: "sheetsOk e \<longrightarrow> sheet (snd (deleteIssueHandler e req w)) =
               AList.delete (paramsId req) (sheet w)"
    by (simp add: d i syncIssueToSheets_def writeSheet_def deleteIssue_def called_def)
  from f m i r t n c s
  show "\<exists>issue. find (\<lambda>r. id_col r = paramsId req) (issuesTable w) = Some issue
         \<and> issue \<in> set (issuesTable w) \<and> id_col issue = paramsId req
         \<and> fst (deleteIssueHandler e req w) = respond 204 JUndefined
         \<and> issuesTable (snd (deleteIssueHandler e req w)) =
             filter (\<lambda>r. id_col r \<noteq> paramsId req) (issuesTable w)
         \<and> paramsId req \<notin> set (ids (issuesTable (snd (deleteIssueHandler e req w))))
         \<and> calls (snd (deleteIssueHandler e req w)) =
             calls w @ [CallGetIssue (paramsId req), CallDeleteIssue (paramsId req),
                        CallSyncIssue issue Delete]
         \<and> (sheetsOk e \<longrightarrow> sheet (snd (deleteIssueHandler e req w)) =
               AList.delete (paramsId req) (sheet w))"
    by blast
qed

text \<open>
  C10, at a world with one issue: a \<open>DELETE\<close> of another id is answered 404, a
  \<open>DELETE\<close> of its id is answered 204 and empties the store.
\<close>

theorem C10_delete_issue_witness:
  "(paramsId (\<lparr>route = DeleteIssueById, cookie = Some ''s1'',
           paramsId = ''00000000-0000-0000-0000-000000000000'', queryStatus = None,
           queryType = None, querySearch = None, body
               = JUndefined\<rparr>) \<notin> set (ids (issuesTable
               (\<lparr>issuesTable =
            [\<lparr>id_col = ''123e4567-e89b-42d3-a456-426614174000'', title = ''Crash on save'',
              type_col = ''issue'', description = ''It crashes'', impact = ''High'',
              status = ''open'', expectedFixDate = None, createdBy = Some ''u1'',
              updatedBy = Some ''u1'', createdAt = Some 5, updatedAt = Some 5\<rparr>],
           usersTable = [], sessionsTable = [(''s1'', \<lparr>sub = ''u1'', expire = 100\<rparr>)],
           sheet = [], console = [], calls = []\<rparr>)))
    \<and> deleteIssueHandler
        (\<lparr>now = 200, randomUuid = [], sheetsOk = True\<rparr>)
        (\<lparr>route = DeleteIssueById, cookie = Some ''s1'',
           paramsId = ''00000000-0000-0000-0000-000000000000'', queryStatus = None,
           queryType = None, querySearch = None, body = JUndefined\<rparr>) (\<lparr>issuesTable =
            [\<lparr>id_col = ''123e4567-e89b-42d3-a456-426614174000'', title = ''Crash on save'',
              type_col = ''issue'', description = ''It crashes'', impact = ''High'',
              status = ''open'', expectedFixDate = None, createdBy = Some ''u1'',
              updatedBy = Some ''u1'', createdAt = Some 5, updatedAt = Some 5\<rparr>],
           usersTable = [], sessionsTable = [(''s1'', \<lparr>sub = ''u1'', expire = 100\<rparr>)],
           sheet = [], console = [], calls = []\<rparr>) =
        (respond 404 (message ''Issue not found''),
         (\<lparr>issuesTable =
            [\<lparr>id_col = ''123e4567-e89b-42d3-a456-426614174000'', title = ''Crash on save'',
              type_col = ''issue'', description = ''It crashes'', impact = ''High'',
              status = ''open'', expectedFixDate = None, createdBy = Some ''u1'',
              updatedBy = Some ''u1'', createdAt = Some 5, updatedAt = Some 5\<rparr>],
           usersTable = [], sessionsTable = [(''s1'', \<lparr>sub = ''u1'', expire = 100\<rparr>)],
           sheet = [], console = [], calls = []\<rparr>)\<lparr>calls := calls
               (\<lparr>issuesTable =
            [\<lparr>id_col = ''123e4567-e89b-42d3-a456-426614174000'', title = ''Crash on save'',
              type_col = ''issue'', description = ''It crashes'', impact = ''High'',
              status = ''open'', expectedFixDate = None, createdBy = Some ''u1'',
              updatedBy = Some ''u1'', createdAt = Some 5, updatedAt = Some 5\<rparr>],
           usersTable = [], sessionsTable = [(''s1'', \<lparr>sub = ''u1'', expire = 100\<rparr>)],
           sheet = [], console = [], calls = []\<rparr>) @ [CallGetIssue (paramsId
               (\<lparr>route = DeleteIssueById, cookie = Some ''s1'',
           paramsId = ''00000000-0000-0000-0000-000000000000'', queryStatus = None,
           queryType = None, querySearch = None, body = JUndefined\<rparr>))]\<rparr>))
   \<and> (paramsId (\<lparr>route = DeleteIssueById, cookie = Some ''s1'',
           paramsId = ''123e4567-e89b-42d3-a456-426614174000'', queryStatus = None,
           queryType = None, querySearch = None, body
               = JUndefined\<rparr>) \<in> set (ids (issuesTable
               (\<lparr>issuesTable =
            [\<lparr>id_col = ''123e4567-e89b-42d3-a456-426614174000'', title = ''Crash on save'',
              type_col = ''issue'', description = ''It crashes'', impact = ''High'',
              status = ''open'', expectedFixDate = None, createdBy = Some ''u1'',
              updatedBy = Some ''u1'', createdAt = Some 5, updatedAt = Some 5\<rparr>],
           usersTable = [], sessionsTable = [(''s1'', \<lparr>sub = ''u1'', expire = 100\<rparr>)],
           sheet = [], console = [], calls = []\<rparr>)))
    \<and> sheetsOk (\<lparr>now = 200, randomUuid = [], sheetsOk = True\<rparr>)
    \<and> fst (deleteIssueHandler
        (\<lparr>now = 200, randomUuid = [], sheetsOk = True\<rparr>)
        (\<lparr>route = DeleteIssueById, cookie = Some ''s1'',
           paramsId = ''123e4567-e89b-42d3-a456-426614174000'', queryStatus = None,
           queryType = None, querySearch = None, body = JUndefined\<rparr>) (\<lparr>issuesTable =
            [\<lparr>id_col = ''123e4567-e89b-42d3-a456-426614174000'', title = ''Crash on save'',
              type_col = ''issue'', description = ''It crashes'', impact = ''High'',
              status = ''open'', expectedFixDate = None, createdBy = Some ''u1'',
              updatedBy = Some ''u1'', createdAt = Some 5, updatedAt = Some 5\<rparr>],
           usersTable = [], sessionsTable = [(''s1'', \<lparr>sub = ''u1'', expire = 100\<rparr>)],
           sheet = [], console = [], calls = []\<rparr>)) = respond 204 JUndefined
    \<and> issuesTable (snd (deleteIssueHandler
        (\<lparr>now = 200, randomUuid = [], sheetsOk = True\<rparr>)
        (\<lparr>route = DeleteIssueById, cookie = Some ''s1'',
           paramsId = ''123e4567-e89b-42d3-a456-426614174000'', queryStatus = None,
           queryType = None, querySearch = None, body = JUndefined\<rparr>) (\<lparr>issuesTable =
            [\<lparr>id_col = ''123e4567-e89b-42d3-a456-426614174000'', title = ''Crash on save'',
              type_col = ''issue'', description = ''It crashes'', impact = ''High'',
              status = ''open'', expectedFixDate = None, createdBy = Some ''u1'',
              updatedBy = Some ''u1'', createdAt = Some 5, updatedAt = Some 5\<rparr>],
           usersTable = [], sessionsTable = [(''s1'', \<lparr>sub = ''u1'', expire = 100\<rparr>)],
           sheet = [], console = [], calls = []\<rparr>))) = []
    \<and> sheet (snd (deleteIssueHandler
        (\<lparr>now = 200, randomUuid = [], sheetsOk = True\<rparr>)
        (\<lparr>route = DeleteIssueById, cookie = Some ''s1'',
           paramsId = ''123e4567-e89b-42d3-a456-426614174000'', queryStatus = None,
           queryType = None, querySearch = None, body = JUndefined\<rparr>) (\<lparr>issuesTable =
            [\<lparr>id_col = ''123e4567-e89b-42d3-a456-426614174000'', title = ''Crash on save'',
              type_col = ''issue'', description = ''It crashes'', impact = ''High'',
              status = ''open'', expectedFixDate = None, createdBy = Some ''u1'',
              updatedBy = Some ''u1'', createdAt = Some 5, updatedAt = Some 5\<rparr>],
           usersTable = [], sessionsTable = [(''s1'', \<lparr>sub = ''u1'', expire = 100\<rparr>)],
           sheet = [], console = [], calls = []\<rparr>))) = [])"
  (is "(?h1 \<and> ?c1) \<and> (?h2 \<and> ?h3 \<and> ?c2 \<and> ?c3 \<and> ?c4)")
proof -
  have h1: ?h1 and h2: ?h2 and h3: ?h3 by (simp_all add: ids_def)
  from C10_delete_issue [of "(\<lparr>route = DeleteIssueById, cookie = Some ''s1'',
           paramsId = ''00000000-0000-0000-0000-000000000000'', queryStatus = None,
           queryType = None, querySearch = None, body = JUndefined\<rparr>)" "(\<lparr>issuesTable =
            [\<lparr>id_col = ''123e4567-e89b-42d3-a456-426614174000'', title = ''Crash on save'',
              type_col = ''issue'', description = ''It crashes'', impact = ''High'',
              status = ''open'', expectedFixDate = None, createdBy = Some ''u1'',
              updatedBy = Some ''u1'', createdAt = Some 5, updatedAt = Some 5\<rparr>],
           usersTable = [], sessionsTable = [(''s1'', \<lparr>sub = ''u1'', expire = 100\<rparr>)],
           sheet = [], console = [], calls = []\<rparr>)"
               "(\<lparr>now = 200, randomUuid = [], sheetsOk
                   = True\<rparr>)", THEN conjunct1, THEN mp, OF h1]
  have c1: ?c1 .
  from C10_delete_issue [of "(\<lparr>route = DeleteIssueById, cookie = Some ''s1'',
           paramsId = ''123e4567-e89b-42d3-a456-426614174000'', queryStatus = None,
           queryType = None, querySearch = None, body = JUndefined\<rparr>)" "(\<lparr>issuesTable =
            [\<lparr>id_col = ''123e4567-e89b-42d3-a456-426614174000'', title = ''Crash on save'',
              type_col = ''issue'', description = ''It crashes'', impact = ''High'',
              status = ''open'', expectedFixDate = None, createdBy = Some ''u1'',
              updatedBy = Some ''u1'', createdAt = Some 5, updatedAt = Some 5\<rparr>],
           usersTable = [], sessionsTable = [(''s1'', \<lparr>sub = ''u1'', expire = 100\<rparr>)],
           sheet = [], console = [], calls = []\<rparr>)"
               "(\<lparr>now = 200, randomUuid = [], sheetsOk
                   = True\<rparr>)", THEN conjunct2, THEN mp, OF h2] h3
  have c2: ?c2
    and t: "issuesTable (snd (deleteIssueHandler
        (\<lparr>now = 200, randomUuid = [], sheetsOk = True\<rparr>)
        (\<lparr>route = DeleteIssueById, cookie = Some ''s1'',
           paramsId = ''123e4567-e89b-42d3-a456-426614174000'', queryStatus = None,
           queryType = None, querySearch = None, body = JUndefined\<rparr>) (\<lparr>issuesTable =
            [\<lparr>id_col = ''123e4567-e89b-42d3-a456-426614174000'', title = ''Crash on save'',
              type_col = ''issue'', description = ''It crashes'', impact = ''High'',
              status = ''open'', expectedFixDate = None, createdBy = Some ''u1'',
              updatedBy = Some ''u1'', createdAt = Some 5, updatedAt = Some 5\<rparr>],
           usersTable = [], sessionsTable = [(''s1'', \<lparr>sub = ''u1'', expire = 100\<rparr>)],
           sheet = [], console = [], calls = []\<rparr>))) =
             filter (\<lambda>r. id_col r \<noteq> paramsId
                 (\<lparr>route = DeleteIssueById, cookie = Some ''s1'',
           paramsId = ''123e4567-e89b-42d3-a456-426614174000'', queryStatus = None,
           queryType = None, querySearch = None, body = JUndefined\<rparr>)) (issuesTable
               (\<lparr>issuesTable =
            [\<lparr>id_col = ''123e4567-e89b-42d3-a456-426614174000'', title = ''Crash on save'',
              type_col = ''issue'', description = ''It crashes'', impact = ''High'',
              status = ''open'', expectedFixDate = None, createdBy = Some ''u1'',
              updatedBy = Some ''u1'', createdAt = Some 5, updatedAt = Some 5\<rparr>],
           usersTable = [], sessionsTable = [(''s1'', \<lparr>sub = ''u1'', expire = 100\<rparr>)],
           sheet = [], console = [], calls = []\<rparr>))"
    and s: "sheet (snd (deleteIssueHandler
        (\<lparr>now = 200, randomUuid = [], sheetsOk = True\<rparr>)
        (\<lparr>route = DeleteIssueById, cookie = Some ''s1'',
           paramsId = ''123e4567-e89b-42d3-a456-426614174000'', queryStatus = None,
           queryType = None, querySearch = None, body = JUndefined\<rparr>) (\<lparr>issuesTable =
            [\<lparr>id_col = ''123e4567-e89b-42d3-a456-426614174000'', title = ''Crash on save'',
              type_col = ''issue'', description = ''It crashes'', impact = ''High'',
              status = ''open'', expectedFixDate = None, createdBy = Some ''u1'',
              updatedBy = Some ''u1'', createdAt = Some 5, updatedAt = Some 5\<rparr>],
           usersTable = [], sessionsTable = [(''s1'', \<lparr>sub = ''u1'', expire = 100\<rparr>)],
           sheet = [], console = [], calls = []\<rparr>))) =
               AList.delete (paramsId (\<lparr>route = DeleteIssueById, cookie = Some ''s1'',
           paramsId = ''123e4567-e89b-42d3-a456-426614174000'', queryStatus = None,
           queryType = None, querySearch = None, body = JUndefined\<rparr>)) (sheet
               (\<lparr>issuesTable =
            [\<lparr>id_col = ''123e4567-e89b-42d3-a456-426614174000'', title = ''Crash on save'',
              type_col = ''issue'', description = ''It crashes'', impact = ''High'',
              status = ''open'', expectedFixDate = None, createdBy = Some ''u1'',
              updatedBy = Some ''u1'', createdAt = Some 5, updatedAt = Some 5\<rparr>],
           usersTable = [], sessionsTable = [(''s1'', \<lparr>sub = ''u1'', expire = 100\<rparr>)],
           sheet = [], console = [], calls = []\<rparr>))"
    by blast+
  from t have c3: ?c3 by simp
  from s have c4: ?c4 by simp
  from h1 c1 h2 h3 c2 c3 c4 show ?thesis by blast
qed

section \<open>Mutations and the mirror\<close>

lemma syncIssueToSheets_failing:
  "\<not> sheetsOk e \<Longrightarrow>
    syncIssueToSheets e issue op w =
      (Inr (), consoleError ''Error syncing to Google Sheets:'' (called
          (CallSyncIssue issue op) w))"
  by (simp add: syncIssueToSheets_def writeSheet_def)

lemma issuesTable_logged:
  "issuesTable (consoleError msg (called c w)) = issuesTable w"
  by (simp add: consoleError_def called_def)




section \<open>Updates\<close>

lemma merge_created:
  "createdBy (merge e d userId r) = createdBy r \<and> createdAt (merge e d userId r) = createdAt r"
  by (simp add: merge_def)

lemma merge_updated:
  "updatedBy (merge e d userId r) = Some userId \<and> updatedAt (merge e d userId r)
      = Some (now e)"
  by (simp add: merge_def)

lemma updateIssue_created:
  "map createdBy (issuesTable (snd (updateIssue e i d userId w))) = map createdBy (issuesTable w)
   \<and> map createdAt (issuesTable (snd (updateIssue e i d userId w)))
       = map createdAt (issuesTable w)"
  by (auto simp: updateIssue_def called_def merge_created split: option.splits)

lemma syncIssueToSheets_issuesTable:
  "issuesTable (snd (syncIssueToSheets e issue op w)) = issuesTable w"
  by (simp add: syncIssueToSheets_def called_def consoleError_def split: sum.splits)

lemma syncIssueToSheets_returns: "fst (syncIssueToSheets e issue op w) = Inr ()"
  by (simp add: syncIssueToSheets_def split: sum.splits)

lemma putIssueHandler_table:
  "issuesTable (snd (putIssueHandler e userId req w)) = issuesTable w
   \<or> (\<exists>d. issuesTable (snd (putIssueHandler e userId req w)) =
            issuesTable (snd (updateIssue e (paramsId req) d userId w)))"
proof (cases "parseOrThrow updateIssueSchema (body req)")
  case (Inl err)
  then show ?thesis
    by (cases err) (simp_all add: putIssueHandler_eq failedOrInvalid_def failed_def consoleError_def)
next
  case (Inr d)
  obtain res w1 where u: "updateIssue e (paramsId req) d userId w = (res, w1)"
    by (cases "updateIssue e (paramsId req) d userId w")
  have "issuesTable (snd (putIssueHandler e userId req w)) = issuesTable w1"
  proof (cases res)
    case (Inl err)
    with Inr u show ?thesis
      by (cases err) (simp_all add: putIssueHandler_eq failedOrInvalid_def failed_def consoleError_def)
  next
    case r: (Inr found)
    show ?thesis
    proof (cases found)
      case None
      with Inr u r show ?thesis by (simp add: putIssueHandler_eq)
    next
      case (Some issue)
      obtain x w2 where s: "syncIssueToSheets e issue Update w1 = (x, w2)"
        by (cases "syncIssueToSheets e issue Update w1")
      with syncIssueToSheets_returns [of e issue Update w1]
        syncIssueToSheets_issuesTable [of e issue Update w1]
      have "x = Inr ()" and "issuesTable w2 = issuesTable w1" by simp_all
      with Inr u r Some s show ?thesis by (simp add: putIssueHandler_eq)
    qed
  qed
  moreover from u have "w1 = snd (updateIssue e (paramsId req) d userId w)" by simp
  ultimately show ?thesis by blast
qed

lemma putIssueHandler_created:
  "map createdBy (issuesTable (snd (putIssueHandler e userId req w)))
      = map createdBy (issuesTable w)
   \<and> map createdAt (issuesTable (snd (putIssueHandler e userId req w)))
       = map createdAt (issuesTable w)"
  using putIssueHandler_table [of e userId req w] updateIssue_created [of e "paramsId req" _ userId w]
  by auto

lemma handle_put_created:
  assumes "route req = PutIssueById"
  shows "map createdBy (issuesTable (snd (handle e req w))) = map createdBy (issuesTable w)
   \<and> map createdAt (issuesTable (snd (handle e req w))) = map createdAt (issuesTable w)"
proof (cases "isAuthenticated e w req")
  case None
  with assms show ?thesis by (simp add: handle_def withAuth_def)
next
  case (Some userId)
  with assms putIssueHandler_created [of e userId req w] show ?thesis
    by (simp add: handle_def withAuth_def)
qed

lemma serve_put_created:
  "\<forall>x \<in> set rs. route (snd x) = PutIssueById \<Longrightarrow>
    map createdBy (issuesTable (serve rs w)) = map createdBy (issuesTable w)
    \<and> map createdAt (issuesTable (serve rs w)) = map createdAt (issuesTable w)"
proof (induction rs arbitrary: w)
  case Nil
  show ?case by simp
next
  case (Cons x rs)
  obtain e req where x: "x = (e, req)" by (cases x)
  with Cons.prems have r: "route req = PutIssueById" by simp
  from Cons.prems have "\<forall>y \<in> set rs. route (snd y) = PutIssueById" by simp
  from Cons.IH [OF this, of "snd (handle e req w)"] handle_put_created [OF r, of e w]
  show ?case by (simp add: x)
qed

lemma updateIssue_found:
  assumes "updateIssue e i d userId w = (Inr (Some issue), w1)"
  shows "issue \<in> set (issuesTable w1) \<and> updatedBy issue = Some userId
         \<and> updatedAt issue = Some (now e)"
proof -
  from assms obtain r where f: "find (\<lambda>r. id_col r = i) (issuesTable w) = Some r"
    by (auto simp: updateIssue_def split: option.splits)
  with assms have i: "issue = merge e d userId r"
    and t: "issuesTable w1 = map (\<lambda>x. if id_col x
        = i then merge e d userId x else x) (issuesTable w)"
    by (auto simp: updateIssue_def called_def split: if_splits)
  from find_SomeD [OF f] have "r \<in> set (issuesTable w)" and "id_col r = i" by simp_all
  then have "merge e d userId r \<in> set (issuesTable w1)"
    unfolding t by force
  with i merge_updated [of e d userId r] show ?thesis by simp
qed

lemma putIssueHandler_ok:
  assumes "putIssueHandler e userId req w = (r, w')" and "statusCode r = 200"
  shows "\<exists>issue. r = respond 200 (issueJson issue) \<and> issue \<in> set (issuesTable w')
           \<and> updatedBy issue = Some userId \<and> updatedAt issue = Some (now e)"
proof -
  from assms obtain d issue w1 where u: "updateIssue e (paramsId req) d userId w
      = (Inr (Some issue), w1)"
    and r: "r = respond 200 (issueJson issue)"
    and w': "w' = snd (syncIssueToSheets e issue Update w1)"
    by (auto simp: putIssueHandler_eq failedOrInvalid_def failed_def respond_def
        split: sum.splits prod.splits option.splits error.splits)
  from w' have "issuesTable w' = issuesTable w1"
    by (simp add: syncIssueToSheets_issuesTable)
  with updateIssue_found [OF u] r show ?thesis by auto
qed

text \<open>
  C7: whatever sequence of \<open>PUT /api/issues/:id\<close> requests the server answers, with
  whatever bodies, sessions and clocks, every row of the table keeps its \<open>createdBy\<close>
  and its \<open>createdAt\<close> (rows are followed by their position, which an update does not
  change); and every \<open>PUT\<close> that is answered 200 was made by an authenticated subject
  and returns a stored record whose \<open>updatedBy\<close> is that subject and whose
  \<open>updatedAt\<close> is the server time of the request.
\<close>

theorem C7_update_keeps_creation_fields:
  "((\<forall>x \<in> set rs. route (snd x) = PutIssueById) \<longrightarrow>
       map createdBy (issuesTable (serve rs w)) = map createdBy (issuesTable w)
       \<and> map createdAt (issuesTable (serve rs w)) = map createdAt (issuesTable w))
   \<and> (route req = PutIssueById \<and> handle e req w = (r, w') \<and> statusCode r
       = 200 \<longrightarrow>
       (\<exists>userId issue. isAuthenticated e w req = Some userId
          \<and> r = respond 200 (issueJson issue) \<and> issue \<in> set (issuesTable w')
          \<and> updatedBy issue = Some userId \<and> updatedAt issue = Some (now e)))"
proof (intro conjI impI)
  assume "\<forall>x \<in> set rs. route (snd x) = PutIssueById"
  from serve_put_created [OF this, of w]
  show "map createdBy (issuesTable (serve rs w)) = map createdBy (issuesTable w)"
    and "map createdAt (issuesTable (serve rs w)) = map createdAt (issuesTable w)"
    by simp_all
next
  assume h: "route req = PutIssueById \<and> handle e req w = (r, w') \<and> statusCode r = 200"
  show "\<exists>userId issue. isAuthenticated e w req = Some userId
          \<and> r = respond 200 (issueJson issue) \<and> issue \<in> set (issuesTable w')
          \<and> updatedBy issue = Some userId \<and> updatedAt issue = Some (now e)"
  proof (cases "isAuthenticated e w req")
    case None
    from h have "route req = PutIssueById" and "handle e req w = (r, w')"
      and "statusCode r = 200"
      by simp_all
    with None show ?thesis by (auto simp: handle_def withAuth_def respond_def)
  next
    case (Some userId)
    from h have "route req = PutIssueById" and "handle e req w = (r, w')"
      and c: "statusCode r = 200"
      by simp_all
    with Some have "putIssueHandler e userId req w = (r, w')"
      by (simp add: handle_def withAuth_def)
    from putIssueHandler_ok [OF this c] Some show ?thesis by auto
  qed
qed

text \<open>
  C7, at a store with one issue created by \<open>u1\<close> at time 5 and two updates by
  \<open>u2\<close> at times 50 and 60.
\<close>

theorem C7_update_keeps_creation_fields_witness:
  "(route (snd ((\<lparr>now = 50, randomUuid = [], sheetsOk = True\<rparr>),
      (\<lparr>route = PutIssueById, cookie = Some ''s2'',
       paramsId = ''123e4567-e89b-42d3-a456-426614174000'', queryStatus = None,
       queryType = None, querySearch = None, body
           = JObj [(''status'', JStr ''closed'')]\<rparr>)))
               = PutIssueById \<and> route (snd ((\<lparr>now = 60, randomUuid = [], sheetsOk
                   = False\<rparr>),
           (\<lparr>route = PutIssueById, cookie = Some ''s2'',
       paramsId = ''123e4567-e89b-42d3-a456-426614174000'', queryStatus = None,
       queryType = None, querySearch = None, body = JObj [(''title'', JStr ''Crash'')]\<rparr>)))
           = PutIssueById
    \<and> map createdBy (issuesTable (serve [((\<lparr>now = 50, randomUuid = [], sheetsOk
        = True\<rparr>),
        (\<lparr>route = PutIssueById, cookie = Some ''s2'',
       paramsId = ''123e4567-e89b-42d3-a456-426614174000'', queryStatus = None,
       queryType = None, querySearch = None, body
           = JObj [(''status'', JStr ''closed'')]\<rparr>)), ((\<lparr>now = 60, randomUuid
               = [], sheetsOk = False\<rparr>),
           (\<lparr>route = PutIssueById, cookie = Some ''s2'',
       paramsId = ''123e4567-e89b-42d3-a456-426614174000'', queryStatus = None,
       queryType = None, querySearch = None, body = JObj [(''title'', JStr ''Crash'')]\<rparr>))]
           (\<lparr>issuesTable = [\<lparr>id_col
               = ''123e4567-e89b-42d3-a456-426614174000'', title = ''Crash on save'',
       type_col = ''issue'', description = ''It crashes'', impact = ''High'',
       status = ''open'', expectedFixDate = None, createdBy = Some ''u1'',
       updatedBy = Some ''u1'', createdAt = Some 5, updatedAt = Some 5\<rparr>], usersTable = [],
       sessionsTable = [(''s2'', \<lparr>sub = ''u2'', expire = 1000\<rparr>)],
       sheet = [], console = [], calls = []\<rparr>))) = [Some ''u1'']
    \<and> map createdAt (issuesTable (serve [((\<lparr>now = 50, randomUuid = [], sheetsOk
        = True\<rparr>),
        (\<lparr>route = PutIssueById, cookie = Some ''s2'',
       paramsId = ''123e4567-e89b-42d3-a456-426614174000'', queryStatus = None,
       queryType = None, querySearch = None, body
           = JObj [(''status'', JStr ''closed'')]\<rparr>)), ((\<lparr>now = 60, randomUuid
               = [], sheetsOk = False\<rparr>),
           (\<lparr>route = PutIssueById, cookie = Some ''s2'',
       paramsId = ''123e4567-e89b-42d3-a456-426614174000'', queryStatus = None,
       queryType = None, querySearch = None, body = JObj [(''title'', JStr ''Crash'')]\<rparr>))]
           (\<lparr>issuesTable = [\<lparr>id_col
               = ''123e4567-e89b-42d3-a456-426614174000'', title = ''Crash on save'',
       type_col = ''issue'', description = ''It crashes'', impact = ''High'',
       status = ''open'', expectedFixDate = None, createdBy = Some ''u1'',
       updatedBy = Some ''u1'', createdAt = Some 5, updatedAt = Some 5\<rparr>], usersTable = [],
       sessionsTable = [(''s2'', \<lparr>sub = ''u2'', expire = 1000\<rparr>)],
       sheet = [], console = [], calls = []\<rparr>))) = [Some 5])
   \<and> (route (\<lparr>route = PutIssueById, cookie = Some ''s2'',
       paramsId = ''123e4567-e89b-42d3-a456-426614174000'', queryStatus = None,
       queryType = None, querySearch = None, body = JObj [(''status'', JStr ''closed'')]\<rparr>)
           = PutIssueById
    \<and> statusCode (fst (handle
        (\<lparr>now = 50, randomUuid = [], sheetsOk = True\<rparr>)
        (\<lparr>route = PutIssueById, cookie = Some ''s2'',
       paramsId = ''123e4567-e89b-42d3-a456-426614174000'', queryStatus = None,
       queryType = None, querySearch = None, body = JObj [(''status'', JStr ''closed'')]\<rparr>)
           (\<lparr>issuesTable = [\<lparr>id_col
               = ''123e4567-e89b-42d3-a456-426614174000'', title = ''Crash on save'',
       type_col = ''issue'', description = ''It crashes'', impact = ''High'',
       status = ''open'', expectedFixDate = None, createdBy = Some ''u1'',
       updatedBy = Some ''u1'', createdAt = Some 5, updatedAt = Some 5\<rparr>], usersTable = [],
       sessionsTable = [(''s2'', \<lparr>sub = ''u2'', expire = 1000\<rparr>)],
       sheet = [], console = [], calls = []\<rparr>))) = 200
    \<and> (\<exists>userId issue. isAuthenticated
        (\<lparr>now = 50, randomUuid = [], sheetsOk = True\<rparr>)
        (\<lparr>issuesTable = [\<lparr>id_col = ''123e4567-e89b-42d3-a456-426614174000'', title
            = ''Crash on save'',
       type_col = ''issue'', description = ''It crashes'', impact = ''High'',
       status = ''open'', expectedFixDate = None, createdBy = Some ''u1'',
       updatedBy = Some ''u1'', createdAt = Some 5, updatedAt = Some 5\<rparr>], usersTable = [],
       sessionsTable = [(''s2'', \<lparr>sub = ''u2'', expire = 1000\<rparr>)],
       sheet = [], console = [], calls = []\<rparr>)
           (\<lparr>route = PutIssueById, cookie = Some ''s2'',
       paramsId = ''123e4567-e89b-42d3-a456-426614174000'', queryStatus = None,
       queryType = None, querySearch = None, body = JObj [(''status'', JStr ''closed'')]\<rparr>)
           = Some userId
          \<and> fst (handle
              (\<lparr>now = 50, randomUuid = [], sheetsOk = True\<rparr>)
              (\<lparr>route = PutIssueById, cookie = Some ''s2'',
       paramsId = ''123e4567-e89b-42d3-a456-426614174000'', queryStatus = None,
       queryType = None, querySearch = None, body = JObj [(''status'', JStr ''closed'')]\<rparr>)
           (\<lparr>issuesTable = [\<lparr>id_col
               = ''123e4567-e89b-42d3-a456-426614174000'', title = ''Crash on save'',
       type_col = ''issue'', description = ''It crashes'', impact = ''High'',
       status = ''open'', expectedFixDate = None, createdBy = Some ''u1'',
       updatedBy = Some ''u1'', createdAt = Some 5, updatedAt = Some 5\<rparr>], usersTable = [],
       sessionsTable = [(''s2'', \<lparr>sub = ''u2'', expire = 1000\<rparr>)],
       sheet = [], console = [], calls = []\<rparr>)) = respond 200 (issueJson issue)
          \<and> issue \<in> set (issuesTable (snd (handle
              (\<lparr>now = 50, randomUuid = [], sheetsOk = True\<rparr>)
              (\<lparr>route = PutIssueById, cookie = Some ''s2'',
       paramsId = ''123e4567-e89b-42d3-a456-426614174000'', queryStatus = None,
       queryType = None, querySearch = None, body = JObj [(''status'', JStr ''closed'')]\<rparr>)
           (\<lparr>issuesTable = [\<lparr>id_col
               = ''123e4567-e89b-42d3-a456-426614174000'', title = ''Crash on save'',
       type_col = ''issue'', description = ''It crashes'', impact = ''High'',
       status = ''open'', expectedFixDate = None, createdBy = Some ''u1'',
       updatedBy = Some ''u1'', createdAt = Some 5, updatedAt = Some 5\<rparr>], usersTable = [],
       sessionsTable = [(''s2'', \<lparr>sub = ''u2'', expire = 1000\<rparr>)],
       sheet = [], console = [], calls = []\<rparr>))))
          \<and> updatedBy issue = Some userId \<and> updatedAt issue = Some (now
              (\<lparr>now = 50, randomUuid = [], sheetsOk = True\<rparr>))))"
  (is "(?h1 \<and> ?h2 \<and> ?c1 \<and> ?c2) \<and> (?h3 \<and> ?h4 \<and> ?c3)")
proof -
  let ?ISS = "\<lparr>id_col = ''123e4567-e89b-42d3-a456-426614174000'', title = ''Crash on save'',
       type_col = ''issue'', description = ''It crashes'', impact = ''High'',
       status = ''open'', expectedFixDate = None, createdBy = Some ''u1'',
       updatedBy = Some ''u1'', createdAt = Some 5, updatedAt = Some 5\<rparr>"
  let ?W1 = "\<lparr>issuesTable = [?ISS], usersTable = [],
       sessionsTable = [(''s2'', \<lparr>sub = ''u2'', expire = 1000\<rparr>)],
       sheet = [], console = [], calls = []\<rparr>"
  let ?E1 = "\<lparr>now = 50, randomUuid = [], sheetsOk = True\<rparr>"
  let ?E2 = "\<lparr>now = 60, randomUuid = [], sheetsOk = False\<rparr>"
  let ?R1 = "\<lparr>route = PutIssueById, cookie = Some ''s2'',
       paramsId = ''123e4567-e89b-42d3-a456-426614174000'', queryStatus = None,
       queryType = None, querySearch = None, body = JObj [(''status'', JStr ''closed'')]\<rparr>"
  let ?R2 = "\<lparr>route = PutIssueById, cookie = Some ''s2'',
       paramsId = ''123e4567-e89b-42d3-a456-426614174000'', queryStatus = None,
       queryType = None, querySearch = None, body = JObj [(''title'', JStr ''Crash'')]\<rparr>"
  have h1: ?h1 and h2: ?h2 and h3: ?h3 by simp_all
  from h1 h2 have a: "\<forall>x \<in> set [(?E1, ?R1), (?E2, ?R2)]. route (snd x) = PutIssueById"
    by simp
  note t = C7_update_keeps_creation_fields [of "[(?E1, ?R1),
      (?E2, ?R2)]" ?W1, THEN conjunct1, THEN mp, OF a]
  have c1: ?c1 unfolding t [THEN conjunct1] by simp
  have c2: ?c2 unfolding t [THEN conjunct2] by simp
  have h4: ?h4
    by (simp add: handle_def withAuth_def isAuthenticated_def putIssueHandler_eq
        parseOrThrow_def updateIssueSchema_shape fieldIssues_def parseField_def strip_def
        getProp_def updateIssue_def merge_def stringOr_def dateOr_def ids_def called_def
        syncIssueToSheets_def writeSheet_def respond_def)
  have p: "handle ?E1 ?R1 ?W1 = (fst (handle ?E1 ?R1 ?W1), snd (handle ?E1 ?R1 ?W1))"
    by simp
  from C7_update_keeps_creation_fields [of _ ?W1 ?R1 ?E1 "fst (handle ?E1 ?R1 ?W1)" "snd
      (handle ?E1 ?R1 ?W1)",
      THEN conjunct2, THEN mp, OF conjI [OF h3 conjI [OF p h4]]]
  have c3: ?c3 .
  from h1 h2 c1 c2 h3 h4 c3 show ?thesis by blast
qed

text \<open>
  C8, at an update whose body carries an \<open>id\<close>: \<open>updateIssueSchema\<close> omits
  \<open>createdBy\<close>, \<open>createdAt\<close>, \<open>updatedBy\<close> and \<open>updatedAt\<close> but not \<open>id\<close>, which
  \<open>insertIssueSchema\<close> does omit. So \<open>id\<close> is a key of the update shape and not of the
  creation shape, \<open>updateIssueSchema.parse\<close> returns the validated data with the \<open>id\<close>
  of the body, and the \<open>PUT\<close> handler calls \<open>storage.updateIssue\<close> with that data:
  the accepted update shape hands a client-chosen id to the store.
\<close>

theorem C8_update_shape_accepts_id:
  "''id'' \<in> set (keys updateIssueSchema) \<and> ''id'' \<notin> set (keys insertIssueSchema)
   \<and> parse updateIssueSchema (JObj [(''id'', JStr ''00000000-0000-4000-8000-000000000001'')])
       = Inr [(''id'', JStr ''00000000-0000-4000-8000-000000000001'')]
   \<and> CallUpdateIssue ''123e4567-e89b-42d3-a456-426614174000''
         [(''id'', JStr ''00000000-0000-4000-8000-000000000001'')] ''u2''
       \<in> set (calls (snd (handle
           (\<lparr>now = 50, randomUuid = [], sheetsOk = True\<rparr>)
           (\<lparr>route = PutIssueById, cookie = Some ''s2'',
       paramsId = ''123e4567-e89b-42d3-a456-426614174000'', queryStatus = None,
       queryType = None, querySearch = None,
       body = JObj [(''id'', JStr ''00000000-0000-4000-8000-000000000001'')]\<rparr>)
           (\<lparr>issuesTable = [\<lparr>id_col
               = ''123e4567-e89b-42d3-a456-426614174000'', title = ''Crash on save'',
       type_col = ''issue'', description = ''It crashes'', impact = ''High'',
       status = ''open'', expectedFixDate = None, createdBy = Some ''u1'',
       updatedBy = Some ''u1'', createdAt = Some 5, updatedAt = Some 5\<rparr>], usersTable = [],
       sessionsTable = [(''s2'', \<lparr>sub = ''u2'', expire = 1000\<rparr>)],
       sheet = [], console = [], calls = []\<rparr>))))"
  (is "?u \<and> ?i \<and> ?p \<and> ?c")
proof (intro conjI)
  show ?u by (simp add: updateIssueSchema_shape keys_def)
  show ?i by (simp add: keys_insertIssueSchema)
  show ?p
    by (simp add: updateIssueSchema_shape fieldIssues_def parseField_def strip_def getProp_def
        isUuid_def uuidMask_def isHex_def)
  show ?c
    by (simp add: handle_def withAuth_def isAuthenticated_def putIssueHandler_eq
        parseOrThrow_def updateIssueSchema_shape fieldIssues_def parseField_def strip_def
        getProp_def isUuid_def uuidMask_def isHex_def updateIssue_def called_def
        syncIssueToSheets_def writeSheet_def)
qed

end
